theory Spec2Isabelle
  imports Main
begin

unbundle bit_operations_syntax

section \<open>Values of the API package\<close>

text \<open>
  Go's \<open>int64\<close> and \<open>int\<close> are modelled as \<open>int\<close>: the package only compares,
  masks and parses them, it does no arithmetic that could wrap; \<open>ParseInt\<close> below clamps
  to the 64-bit range as the library does.
\<close>

type_synonym int64 = int

text \<open>An argument of the variadic \<open>params ...interface{}\<close> of \<open>errorAPI\<close>.\<close>

datatype arg = ArgString string | ArgInt64 int64

text \<open>
  Error values and message texts. \<open>Sprintf f as\<close> stands for the text
  \<open>fmt.Sprintf(f, as...)\<close>, \<open>ErrorText e\<close> for the text \<open>e.Error()\<close>; neither is
  rendered. \<open>External t\<close> is an error value handed back by a collaborator that is not
  part of the package (storage, the JWT library, the JSON encoder), with its text.
\<close>

datatype error =
    Errorf message
  | ErrSyntax string
  | ErrRange string
  | ErrLength
  | InvalidByteError char
  | External string
and message =
    Text string
  | ErrorText error
  | Sprintf string "arg list"

text \<open>A value of \<open>data.params\<close> (\<open>map[string]interface{}\<close>): the dynamic types stored there.\<close>

datatype param = PInt64 int64 | PBytes string | PString string

subsection \<open>Response writer, logger and process state\<close>

text \<open>
  The \<open>http.ResponseWriter\<close> is the sequence of calls made on it. A body write is either
  the one-line error envelope of \<open>errorAPI\<close> (code, message, quoted parameters; an empty
  list when the envelope has no \<open>params\<close> member) or the marshalled result.
\<close>

datatype body = Envelope string message "string list" | Payload string

datatype event = SetHeader string string | WriteHeader int | Write body

datatype level = Info | Warning | Error

record world =
  response :: "event list"
  logs :: "(level \<times> string) list"
  installed :: bool
  queries :: "string list"

text \<open>
  \<open>installed\<close> is the package variable of that name; \<open>queries\<close> lists the tables
  for which \<open>model.GetNextID\<close> has been called.
\<close>

definition header :: "string \<Rightarrow> string \<Rightarrow> world \<Rightarrow> world" where
  "header k v w = w\<lparr>response := response w @ [SetHeader k v]\<rparr>"

definition log :: "level \<Rightarrow> string \<Rightarrow> world \<Rightarrow> world" where
  "log l m w = w\<lparr>logs := logs w @ [(l, m)]\<rparr>"

text \<open>
  What the client receives, as \<open>net/http\<close> defines it: the first \<open>WriteHeader\<close> fixes the
  status, and a body write before any \<open>WriteHeader\<close> fixes it to 200.
\<close>

fun status_of :: "event list \<Rightarrow> int" where
  "status_of [] = 200"
| "status_of (SetHeader k v # es) = status_of es"
| "status_of (WriteHeader c # es) = c"
| "status_of (Write b # es) = 200"

fun bodies :: "event list \<Rightarrow> body list" where
  "bodies [] = []"
| "bodies (Write b # es) = b # bodies es"
| "bodies (e # es) = bodies es"

subsection \<open>Collaborators outside the package\<close>

text \<open>The token of the JWT library, with the fields the package reads.\<close>

datatype SigningMethod = SigningMethodHMAC string | SigningMethodOther string

text \<open>\<open>jwt.SigningMethodHS256\<close>\<close>

definition HS256 :: SigningMethod where
  "HS256 = SigningMethodHMAC ''HS256''"

record StandardClaims =
  Audience :: string
  ExpiresAt :: int64
  Id :: string
  IssuedAt :: int64
  Issuer :: string
  NotBefore :: int64
  Subject :: string

record JWTClaims = StandardClaims +
  UID :: string
  State :: string
  Wallet :: string

record Token =
  Raw :: string
  Method :: SigningMethod
  Claims :: JWTClaims
  Signature :: string
  Valid :: bool

text \<open>
  The environment of one request: the error registry \<open>errors\<close> of the package (its
  declaration is not among the sources), the storage calls, the JSON encoder and the two
  entry points of the JWT library the package calls.
\<close>

record 'r env =
  errors :: "string \<rightharpoonup> string"
  GetNextID :: "string \<Rightarrow> error + int64"
  DBConn_nil :: bool
  config_IsExist :: bool
  Marshal :: "'r option \<Rightarrow> error + string"
  ParseWithClaims :: "string \<Rightarrow> (Token \<Rightarrow> error + string) \<Rightarrow> Token option \<times> error option"
  SignedString :: "SigningMethod \<Rightarrow> JWTClaims \<Rightarrow> string \<Rightarrow> string + string"

subsection \<open>The request context\<close>

record 'r apiData =
  status :: int
  result :: "'r option"
  params :: "string \<rightharpoonup> param"
  state :: int64
  wallet :: int64
  token :: "Token option"

section \<open>errorAPI\<close>

text \<open>\<open>%v\<close> of an \<open>int64\<close> and of a string.\<close>

fun FormatUint :: "nat \<Rightarrow> string" where
  "FormatUint n =
     (if n < 10 then [''0123456789'' ! n]
      else FormatUint (n div 10) @ [''0123456789'' ! (n mod 10)])"

definition FormatInt :: "int64 \<Rightarrow> string" where
  "FormatInt i = (if i < 0 then CHR ''-'' # FormatUint (nat (- i)) else FormatUint (nat i))"

fun verb_v :: "arg \<Rightarrow> string" where
  "verb_v (ArgString s) = s"
| "verb_v (ArgInt64 i) = FormatInt i"

text \<open>\<open>fmt.Sprintf(`"%v"`, item)\<close>\<close>

definition quoted :: "arg \<Rightarrow> string" where
  "quoted a = CHR 0x22 # verb_v a @ [CHR 0x22]"

text \<open>
  The first argument of \<open>errorAPI\<close> is an \<open>interface{}\<close>; every call in the package
  passes a string or an error value.
\<close>

datatype err_arg = Code string | Obj error

definition errorAPI ::
  "('r, 'x) env_scheme \<Rightarrow> err_arg \<Rightarrow> int \<Rightarrow> arg list \<Rightarrow> world \<Rightarrow> error \<times> world" where
  "errorAPI env err code ps w =
     (let (errCode, msg, errParams) =
        (case err of
           Code v \<Rightarrow>
             (case errors env v of
                Some val \<Rightarrow>
                  if length ps > 0 then (v, Sprintf val ps, map quoted ps)
                  else (v, Text val, [])
              | None \<Rightarrow> (v, Text v, []))
         | Obj e \<Rightarrow> (''E_SERVER'', ErrorText e, []))
      in (Errorf msg,
          w\<lparr>response := response w @
               [SetHeader ''X-Content-Type-Options'' ''nosniff'',
                WriteHeader code,
                Write (Envelope errCode msg errParams)]\<rparr>))"

section \<open>checkEcosystem\<close>

text \<open>
  A call either returns or panics; \<open>data.params[`ecosystem`].(int64)\<close> panics when the
  entry is missing or holds another dynamic type.
\<close>

datatype panic = TypeAssertion string | Raised string

datatype 'a outcome = Returns 'a world | Panics panic world

definition StatusBadRequest :: int where "StatusBadRequest = 400"
definition StatusUnauthorized :: int where "StatusUnauthorized = 401"
definition StatusInternalServerError :: int where "StatusInternalServerError = 500"

definition checkEcosystem ::
  "('r, 'x) env_scheme \<Rightarrow> ('r, 'y) apiData_scheme \<Rightarrow> world \<Rightarrow> (int64 \<times> error option) outcome" where
  "checkEcosystem env data w =
     (case params data ''ecosystem'' of
        Some (PInt64 e) \<Rightarrow>
          if e > 0 then
            (let w1 = w\<lparr>queries := queries w @ [''system_states'']\<rparr> in
             case GetNextID env ''system_states'' of
               Inl err \<Rightarrow>
                 (let (e1, w2) = errorAPI env (Obj err) StatusBadRequest []
                                   (log Error ''getting next id system states'' w1)
                  in Returns (0, Some e1) w2)
             | Inr count \<Rightarrow>
                 if e \<ge> count then
                   (let (e1, w2) = errorAPI env (Code ''E_ECOSYSTEM'') StatusBadRequest [ArgInt64 e]
                                     (log Error ''state_id is larger then max count'' w1)
                    in Returns (0, Some e1) w2)
                 else Returns (e, None) w1)
          else Returns (state data, None) w
      | _ \<Rightarrow> Panics (TypeAssertion ''ecosystem'') w)"

section \<open>Library functions the dispatcher calls\<close>

text \<open>\<open>strings.HasPrefix\<close>\<close>

definition HasPrefix :: "string \<Rightarrow> string \<Rightarrow> bool" where
  "HasPrefix s p = (length s \<ge> length p \<and> take (length p) s = p)"

text \<open>
  \<open>strconv.ParseInt(s, 10, 64)\<close>. The library returns a value beside every error: 0 with a
  syntax error, the nearest bound with a range error. \<open>ParseUint\<close> reads the digits left to
  right and stops at the first offending byte or at the first overflow of 64 bits.
\<close>

datatype numerr = Syntax | Range

definition maxUint64 :: nat where
  "maxUint64 = 2 ^ 64 - 1"

fun ParseUint_loop :: "nat \<Rightarrow> string \<Rightarrow> nat \<times> numerr option" where
  "ParseUint_loop n [] = (n, None)"
| "ParseUint_loop n (c # cs) =
     (if \<not> (48 \<le> (of_char c :: nat) \<and> (of_char c :: nat) \<le> 57) then (0, Some Syntax)
      else if n \<ge> maxUint64 div 10 + 1 then (maxUint64, Some Range)
      else (let n1 = n * 10 + (of_char c - 48) in
            if n1 > maxUint64 then (maxUint64, Some Range) else ParseUint_loop n1 cs))"

definition ParseUint :: "string \<Rightarrow> nat \<times> numerr option" where
  "ParseUint s = (if s = [] then (0, Some Syntax) else ParseUint_loop 0 s)"

definition ParseInt :: "string \<Rightarrow> int64 \<times> error option" where
  "ParseInt s =
     (if s = [] then (0, Some (ErrSyntax s))
      else
        (let neg = (hd s = CHR ''-'');
             s1 = (if hd s = CHR ''+'' \<or> hd s = CHR ''-'' then tl s else s);
             (un, err) = ParseUint s1;
             cutoff = (2 :: nat) ^ 63
         in if err = Some Syntax then (0, Some (ErrSyntax s))
            else if \<not> neg \<and> un \<ge> cutoff then (int cutoff - 1, Some (ErrRange s))
            else if neg \<and> un > cutoff then (- int cutoff, Some (ErrRange s))
            else (if neg then - int un else int un, None)))"

text \<open>\<open>hex.DecodeString\<close>: two hexadecimal digits per byte.\<close>

definition fromHexChar :: "char \<Rightarrow> nat option" where
  "fromHexChar c =
     (let n = (of_char c :: nat) in
      if 48 \<le> n \<and> n \<le> 57 then Some (n - 48)
      else if 97 \<le> n \<and> n \<le> 102 then Some (n - 97 + 10)
      else if 65 \<le> n \<and> n \<le> 70 then Some (n - 65 + 10)
      else None)"

fun DecodeString :: "string \<Rightarrow> error + string" where
  "DecodeString [] = Inr []"
| "DecodeString [c] =
     (case fromHexChar c of None \<Rightarrow> Inl (InvalidByteError c) | Some a \<Rightarrow> Inl ErrLength)"
| "DecodeString (c # d # cs) =
     (case fromHexChar c of
        None \<Rightarrow> Inl (InvalidByteError c)
      | Some a \<Rightarrow>
          (case fromHexChar d of
             None \<Rightarrow> Inl (InvalidByteError d)
           | Some b \<Rightarrow>
               (case DecodeString cs of
                  Inl e \<Rightarrow> Inl e
                | Inr bs \<Rightarrow> Inr (char_of (a * 16 + b) # bs))))"

section \<open>Tokens\<close>

definition jwtSecret :: string where
  "jwtSecret = ''test''"

definition jwtPrefix :: string where
  "jwtPrefix = ''Bearer ''"

text \<open>
  The request: the value of the \<open>Authorization\<close> header (empty when there is none),
  \<open>r.URL.Path\<close>, and the form values behind \<open>r.FormValue\<close>.
\<close>

record request =
  Authorization :: string
  Path :: string
  Form :: "string \<rightharpoonup> string"

definition FormValue :: "request \<Rightarrow> string \<Rightarrow> string" where
  "FormValue r key = (case Form r key of None \<Rightarrow> [] | Some v \<Rightarrow> v)"

text \<open>The key function handed to \<open>jwt.ParseWithClaims\<close>.\<close>

definition keyFunc :: "Token \<Rightarrow> error + string" where
  "keyFunc tok =
     (case Method tok of
        SigningMethodHMAC alg \<Rightarrow> Inr jwtSecret
      | SigningMethodOther alg \<Rightarrow>
          Inl (Errorf (Sprintf ''Unexpected signing method: %v'' [ArgString alg])))"

definition jwtToken :: "('r, 'x) env_scheme \<Rightarrow> request \<Rightarrow> Token option \<times> error option" where
  "jwtToken env r =
     (let auth = Authorization r in
      if length auth = 0 then (None, None)
      else if HasPrefix auth jwtPrefix
        then ParseWithClaims env (drop (length jwtPrefix) auth) keyFunc
        else (None, Some (Errorf (Text ''wrong authorization value''))))"

definition jwtSave :: "('r, 'x) env_scheme \<Rightarrow> JWTClaims \<Rightarrow> world \<Rightarrow> error option \<times> world" where
  "jwtSave env claims w =
     (case SignedString env HS256 claims jwtSecret of
        Inl txt \<Rightarrow>
          (let (e, w1) = errorAPI env (Code txt) StatusInternalServerError [] w
           in (Some e, w1))
      | Inr signedToken \<Rightarrow> (None, header ''Authorization'' (jwtPrefix @ signedToken) w))"

section \<open>The JWT library\<close>

text \<open>
  The package \<open>github.com/dgrijalva/jwt-go\<close> is not part of the repository. Its two entry
  points are modelled after the library: what it leaves to \<open>encoding/json\<close>,
  \<open>encoding/base64\<close>, \<open>crypto/hmac\<close> and the clock is a parameter.
  \<^item> \<open>TimeFunc\<close>: the clock, in seconds.
  \<^item> \<open>SigningString\<close>: header and claims, encoded and joined by a dot.
  \<^item> \<open>Sign\<close>, \<open>Verify\<close>: the signing method applied to a signing string and a key.
  \<^item> \<open>decode\<close>: the parser up to the key lookup (three segments, header, claims, signing
    method): the error and the token built so far, or the token and its signing string.
  \<open>ParseWithClaims\<close> validates the claims, then verifies the signature, whose error
  replaces that of the claims; it sets \<open>Valid\<close> and returns no error only when both pass,
  and returns the token with the error otherwise.
\<close>

record jwt =
  TimeFunc :: int64
  SigningString :: "SigningMethod \<Rightarrow> JWTClaims \<Rightarrow> string"
  Sign :: "SigningMethod \<Rightarrow> string \<Rightarrow> string \<Rightarrow> string + string"
  Verify :: "SigningMethod \<Rightarrow> string \<Rightarrow> string \<Rightarrow> string \<Rightarrow> error option"
  decode :: "string \<Rightarrow> (Token option \<times> error) + (Token \<times> string)"

text \<open>
  \<open>StandardClaims.Valid\<close>: expiry, issued-at and not-before are checked, in this order,
  when they are set (not 0); the error of the last failing check is the one reported. The
  argument of the expiry message is the time since the expiry.
\<close>

definition claims_Valid :: "int64 \<Rightarrow> JWTClaims \<Rightarrow> error option" where
  "claims_Valid now c =
     (if \<not> (NotBefore c = 0 \<or> now \<ge> NotBefore c) then Some (External ''token is not valid yet'')
      else if \<not> (IssuedAt c = 0 \<or> now \<ge> IssuedAt c) then Some (External ''Token used before issued'')
      else if \<not> (ExpiresAt c = 0 \<or> now \<le> ExpiresAt c)
        then Some (Errorf (Sprintf ''token is expired by %v'' [ArgInt64 (now - ExpiresAt c)]))
      else None)"

definition jwt_SignedString :: "jwt \<Rightarrow> SigningMethod \<Rightarrow> JWTClaims \<Rightarrow> string \<Rightarrow> string + string" where
  "jwt_SignedString lib m c key =
     (let sstr = SigningString lib m c in
      case Sign lib m sstr key of
        Inl txt \<Rightarrow> Inl txt
      | Inr sig \<Rightarrow> Inr (sstr @ ''.'' @ sig))"

definition jwt_ParseWithClaims ::
  "jwt \<Rightarrow> string \<Rightarrow> (Token \<Rightarrow> error + string) \<Rightarrow> Token option \<times> error option" where
  "jwt_ParseWithClaims lib raw keyfunc =
     (case decode lib raw of
        Inl (t, e) \<Rightarrow> (t, Some e)
      | Inr (t, sstr) \<Rightarrow>
          (case keyfunc t of
             Inl e \<Rightarrow> (Some t, Some e)
           | Inr key \<Rightarrow>
               (let vErr = claims_Valid (TimeFunc lib) (Claims t);
                    vErr1 = (case Verify lib (Method t) sstr (Signature t) key of
                               Some e \<Rightarrow> Some e
                             | None \<Rightarrow> vErr)
                in case vErr1 of
                     None \<Rightarrow> (Some (t\<lparr>Valid := True\<rparr>), None)
                   | Some e \<Rightarrow> (Some t, Some e))))"

section \<open>Handlers\<close>

text \<open>
  An \<open>apiHandle\<close> gets the writer and the logger (both in the world), the request and the
  context; it returns an error or nil and the context as it left it, or it panics.
  \<open>http.StatusText(http.StatusUnauthorized)\<close> is the text \<open>Unauthorized\<close>.
\<close>

type_synonym 'r apiHandle =
  "request \<Rightarrow> 'r apiData \<Rightarrow> world \<Rightarrow> (error option \<times> 'r apiData) outcome"

definition authWallet :: "('r, 'x) env_scheme \<Rightarrow> 'r apiHandle" where
  "authWallet env r data w =
     (if wallet data = 0 then
        (let (e, w1) = errorAPI env (Code ''Unauthorized'') StatusUnauthorized [] w
         in Returns (Some e, data) w1)
      else Returns (None, data) w)"

definition authState :: "('r, 'x) env_scheme \<Rightarrow> 'r apiHandle" where
  "authState env r data w =
     (if wallet data = 0 \<or> state data \<le> 1 then
        (let (e, w1) = errorAPI env (Code ''Unauthorized'') StatusUnauthorized [] w
         in Returns (Some e, data) w1)
      else Returns (None, data) w)"

section \<open>DefaultHandler\<close>

definition pInt64 :: int where "pInt64 = 0"
definition pHex :: int where "pHex = 1"
definition pString :: int where "pString = 2"
definition pOptional :: int where "pOptional = 0x100"

text \<open>
  The installation gate. It answers \<open>Inl\<close> with the world after the error response when
  the request is turned away.
\<close>

definition gate :: "('r, 'x) env_scheme \<Rightarrow> request \<Rightarrow> world \<Rightarrow> world + world" where
  "gate env r w =
     (if \<not> installed w \<and> Path r \<noteq> ''/api/v2/install'' then
        (if DBConn_nil env \<and> \<not> config_IsExist env then
           Inl (snd (errorAPI env (Code ''E_NOTINSTALLED'') StatusInternalServerError [] w))
         else Inr (w\<lparr>installed := True\<rparr>))
      else Inr w)"

text \<open>
  Identity from the token. The claims of a token parsed with \<open>&JWTClaims{}\<close> are
  \<open>*JWTClaims\<close>, so the type assertion of the source holds.
\<close>

definition identity :: "'r apiData \<Rightarrow> world \<Rightarrow> 'r apiData \<times> world" where
  "identity data w =
     (case token data of
        None \<Rightarrow> (data, w)
      | Some t \<Rightarrow>
          if Valid t \<and> length (Wallet (Claims t)) > 0 then
            (let (s, serr) = ParseInt (State (Claims t));
                 w1 = (if serr \<noteq> None
                       then log Warning ''converting state to int failed, using 0'' w else w);
                 stateInt = (if serr \<noteq> None then 0 else s);
                 (a, aerr) = ParseInt (Wallet (Claims t));
                 w2 = (if aerr \<noteq> None
                       then log Warning ''converting wallet to int failed, using 0'' w1 else w1);
                 walletInt = (if aerr \<noteq> None then 0 else a)
             in (data\<lparr>state := stateInt, wallet := walletInt\<rparr>, w2))
          else (data, w))"

text \<open>The path parameters, copied into \<open>data.params\<close> in their order.\<close>

fun path_params :: "(string \<times> string) list \<Rightarrow> (string \<rightharpoonup> param) \<Rightarrow> (string \<rightharpoonup> param)" where
  "path_params [] m = m"
| "path_params ((k, v) # ps) m = path_params ps (m(k \<mapsto> PString v))"

text \<open>
  The beginning of a request, up to the path parameters: \<open>Inl\<close> with the world after the
  error response when the request stops there.
\<close>

definition enter ::
  "('r, 'x) env_scheme \<Rightarrow> request \<Rightarrow> (string \<times> string) list \<Rightarrow> world \<Rightarrow> world + 'r apiData \<times> world" where
  "enter env r ps w0 =
     (let w1 = log Info ''received http request'' w0;
          w2 = header ''Content-Type'' ''application/json; charset=utf-8''
                 (header ''Access-Control-Allow-Origin'' ''*'' w1)
      in case gate env r w2 of
           Inl w3 \<Rightarrow> Inl w3
         | Inr w3 \<Rightarrow>
             (case jwtToken env r of
                (tok, Some err) \<Rightarrow>
                  Inl (snd (errorAPI env (Obj err) StatusBadRequest []
                              (log Error ''starting session'' w3)))
              | (tok, None) \<Rightarrow>
                  (let (data, w4) =
                         identity \<lparr>status = 0, result = None, params = Map.empty,
                                   state = 0, wallet = 0, token = tok\<rparr> w3
                   in Inr (data\<lparr>params := path_params ps Map.empty\<rparr>, w4))))"

text \<open>
  One round of the loop over the schema: the entry \<open>key\<close>, \<open>par\<close>. \<open>Inl\<close> is the
  world after the error response when the request stops at this entry.
\<close>

definition coerce_entry ::
  "('r, 'x) env_scheme \<Rightarrow> request \<Rightarrow> string \<times> int \<Rightarrow> 'r apiData \<Rightarrow> world
     \<Rightarrow> world + 'r apiData \<times> world" where
  "coerce_entry env r entry data w =
     (let key = fst entry; par = snd entry; val = FormValue r key in
      if par AND pOptional = 0 \<and> length val = 0 then
        Inl (snd (errorAPI env (Code ''E_UNDEFINEVAL'') StatusBadRequest [ArgString key]
                    (log Error ''undefined val'' w)))
      else if par AND 0xff = pInt64 then
        (let (v, err) = ParseInt val
         in Inr (data\<lparr>params := (params data)(key \<mapsto> PInt64 v)\<rparr>,
                 if err \<noteq> None then log Error ''converting http parameter to int'' w else w))
      else if par AND 0xff = pHex then
        (case DecodeString val of
           Inl err \<Rightarrow>
             Inl (snd (errorAPI env (Obj err) StatusBadRequest []
                         (log Error ''decoding http parameter from hex'' w)))
         | Inr bin \<Rightarrow> Inr (data\<lparr>params := (params data)(key \<mapsto> PBytes bin)\<rparr>, w))
      else if par AND 0xff = pString then
        Inr (data\<lparr>params := (params data)(key \<mapsto> PString val)\<rparr>, w)
      else Inr (data, w))"

text \<open>
  The schema \<open>params map[string]int\<close> is given as the list of its entries in the order in
  which the \<open>range\<close> loop visits them; Go leaves that order open.
\<close>

fun coerce ::
  "('r, 'x) env_scheme \<Rightarrow> request \<Rightarrow> (string \<times> int) list \<Rightarrow> 'r apiData \<Rightarrow> world
     \<Rightarrow> world + 'r apiData \<times> world" where
  "coerce env r [] data w = Inr (data, w)"
| "coerce env r (entry # rest) data w =
     (case coerce_entry env r entry data w of
        Inl w1 \<Rightarrow> Inl w1
      | Inr (data1, w1) \<Rightarrow> coerce env r rest data1 w1)"

text \<open>
  The handler chain. Beside the outcome it lists, in order, the context and world each
  handler was called with.
\<close>

fun chain ::
  "'r apiHandle list \<Rightarrow> request \<Rightarrow> 'r apiData \<Rightarrow> world
     \<Rightarrow> ('r apiData \<times> world) list \<times> (error option \<times> 'r apiData) outcome" where
  "chain [] r data w = ([], Returns (None, data) w)"
| "chain (h # hs) r data w =
     (case h r data w of
        Panics p w1 \<Rightarrow> ([(data, w)], Panics p w1)
      | Returns (Some e, data1) w1 \<Rightarrow> ([(data, w)], Returns (Some e, data1) w1)
      | Returns (None, data1) w1 \<Rightarrow>
          (let (cs, out) = chain hs r data1 w1 in ((data, w) # cs, out)))"

text \<open>The result of the request: marshalled and written, or a server error.\<close>

definition reply :: "('r, 'x) env_scheme \<Rightarrow> 'r apiData \<Rightarrow> world \<Rightarrow> world" where
  "reply env data w =
     (case Marshal env (result data) of
        Inl err \<Rightarrow>
          snd (errorAPI env (Obj err) StatusInternalServerError []
                 (log Error ''marhsalling http response to json'' w))
      | Inr jsonResult \<Rightarrow> w\<lparr>response := response w @ [Write (Payload jsonResult)]\<rparr>)"

text \<open>The body of the handle function, without the deferred recovery.\<close>

definition DefaultHandler_body ::
  "('r, 'x) env_scheme \<Rightarrow> (string \<times> int) list \<Rightarrow> 'r apiHandle list \<Rightarrow> request
     \<Rightarrow> (string \<times> string) list \<Rightarrow> world \<Rightarrow> ('r apiData \<times> world) list \<times> unit outcome" where
  "DefaultHandler_body env schema handlers r ps w0 =
     (case enter env r ps w0 of
        Inl w1 \<Rightarrow> ([], Returns () w1)
      | Inr (data, w1) \<Rightarrow>
          (case coerce env r schema data w1 of
             Inl w2 \<Rightarrow> ([], Returns () w2)
           | Inr (data1, w2) \<Rightarrow>
               (case chain handlers r data1 w2 of
                  (cs, Panics p w3) \<Rightarrow> (cs, Panics p w3)
                | (cs, Returns (Some e, data2) w3) \<Rightarrow> (cs, Returns () w3)
                | (cs, Returns (None, data2) w3) \<Rightarrow> (cs, Returns () (reply env data2 w3)))))"

text \<open>
  The handle function: the deferred function recovers a panic of the body, logs it and
  answers with \<open>E_RECOVERED\<close>. A panic carries a value that is not nil, so \<open>recover()\<close>
  is not nil after one. The argument \<open>params\<close> of the source is called \<open>schema\<close> here,
  \<open>params\<close> being the field of the context.
\<close>

definition DefaultHandler ::
  "('r, 'x) env_scheme \<Rightarrow> (string \<times> int) list \<Rightarrow> 'r apiHandle list \<Rightarrow> request
     \<Rightarrow> (string \<times> string) list \<Rightarrow> world \<Rightarrow> ('r apiData \<times> world) list \<times> unit outcome" where
  "DefaultHandler env schema handlers r ps w0 =
     (case DefaultHandler_body env schema handlers r ps w0 of
        (cs, Panics p w) \<Rightarrow>
          (cs, Returns () (snd (errorAPI env (Code ''E_RECOVERED'') StatusInternalServerError []
                                  (log Error ''panic recovered error'' w))))
      | (cs, Returns u w) \<Rightarrow> (cs, Returns u w))"

section \<open>Notions used in the statements\<close>

text \<open>
  \<open>turned_away\<close>: the installation gate rejects the request. \<open>arrived\<close>: the world once
  a request has passed the gate. \<open>envelope\<close>: the body \<open>errorAPI\<close> writes.
\<close>

definition turned_away :: "('r, 'x) env_scheme \<Rightarrow> request \<Rightarrow> world \<Rightarrow> bool" where
  "turned_away env r w =
     (\<not> installed w \<and> Path r \<noteq> ''/api/v2/install'' \<and> DBConn_nil env \<and> \<not> config_IsExist env)"

definition arrived :: "request \<Rightarrow> world \<Rightarrow> world" where
  "arrived r w =
     w\<lparr>logs := logs w @ [(Info, ''received http request'')],
       response := response w @
         [SetHeader ''Access-Control-Allow-Origin'' ''*'',
          SetHeader ''Content-Type'' ''application/json; charset=utf-8''],
       installed := (installed w \<or> Path r \<noteq> ''/api/v2/install'')\<rparr>"

definition envelope :: "err_arg \<Rightarrow> ('r, 'x) env_scheme \<Rightarrow> arg list \<Rightarrow> body" where
  "envelope err env ps =
     (case err of
        Code v \<Rightarrow>
          (case errors env v of
             Some val \<Rightarrow> Envelope v (if ps = [] then Text val else Sprintf val ps) (map quoted ps)
           | None \<Rightarrow> Envelope v (Text v) [])
      | Obj e \<Rightarrow> Envelope ''E_SERVER'' (ErrorText e) [])"

text \<open>
  \<open>unwritten\<close>: neither a status nor a body has been written yet; headers may have
  been set.
\<close>

fun unwritten :: "event list \<Rightarrow> bool" where
  "unwritten [] = True"
| "unwritten (SetHeader k v # es) = unwritten es"
| "unwritten (WriteHeader c # es) = False"
| "unwritten (Write b # es) = False"

section \<open>Concrete requests\<close>

text \<open>An environment, a world, a context, requests and handlers for concrete runs.\<close>

definition env0 :: "string env" where
  "env0 = \<lparr>errors = [''E_ECOSYSTEM'' \<mapsto> ''Ecosystem %d doesn't exist'',
                     ''E_UNDEFINEVAL'' \<mapsto> ''Value %s is undefined''],
           GetNextID = (\<lambda>t. Inr 3),
           DBConn_nil = False,
           config_IsExist = True,
           Marshal = (\<lambda>r. case r of None \<Rightarrow> Inr ''null'' | Some s \<Rightarrow> Inr s),
           ParseWithClaims = (\<lambda>s k. (None, Some (External ''token contains an invalid number of segments''))),
           SignedString = (\<lambda>m c k. Inl ''key is invalid'')\<rparr>"

definition world0 :: world where
  "world0 = \<lparr>response = [], logs = [], installed = True, queries = []\<rparr>"

definition data0 :: "string apiData" where
  "data0 = \<lparr>status = 0, result = None, params = Map.empty, state = 0, wallet = 0, token = None\<rparr>"

definition req0 :: request where
  "req0 = \<lparr>Authorization = [], Path = ''/api/v2/balance'', Form = Map.empty\<rparr>"

definition respond :: "string \<Rightarrow> string apiHandle" where
  "respond s r data w = Returns (None, data\<lparr>result := Some s\<rparr>) w"

text \<open>A handler that writes a part of its answer and then panics.\<close>

definition scribble :: "string apiHandle" where
  "scribble r data w =
     Panics (Raised ''boom'') (w\<lparr>response := response w @ [Write (Payload ''partial'')]\<rparr>)"

text \<open>A handler that resolves the ecosystem and answers with its number.\<close>

definition resolve :: "string env \<Rightarrow> string apiHandle" where
  "resolve env r data w =
     (case checkEcosystem env data w of
        Panics p w1 \<Rightarrow> Panics p w1
      | Returns (st, Some e) w1 \<Rightarrow> Returns (Some e, data) w1
      | Returns (st, None) w1 \<Rightarrow> Returns (None, data\<lparr>result := Some (FormatInt st)\<rparr>) w1)"

definition req_badhex :: request where
  "req_badhex = \<lparr>Authorization = [], Path = ''/api/v2/balance'', Form = [''sig'' \<mapsto> ''zz'']\<rparr>"


definition claims0 :: JWTClaims where
  "claims0 = \<lparr>Audience = [], ExpiresAt = 2000, Id = [], IssuedAt = 0, Issuer = [],
              NotBefore = 0, Subject = [], UID = ''u1'', State = ''2'', Wallet = ''5''\<rparr>"

text \<open>A stand-in for the library's codec: every token string decodes to the claims \<open>c\<close>.\<close>

definition lib0 :: "int64 \<Rightarrow> JWTClaims \<Rightarrow> jwt" where
  "lib0 now c =
     \<lparr>TimeFunc = now,
      SigningString = (\<lambda>m c. ''h.c''),
      Sign = (\<lambda>m s k. Inr (''mac-'' @ k)),
      Verify = (\<lambda>m s sig k. if sig = ''mac-'' @ k then None
                              else Some (External ''signature is invalid'')),
      decode = (\<lambda>raw. Inr (\<lparr>Raw = raw, Method = HS256, Claims = c,
                                Signature = drop 4 raw, Valid = False\<rparr>, take 3 raw))\<rparr>"

definition req_bearer :: "string \<Rightarrow> request" where
  "req_bearer s = \<lparr>Authorization = ''Bearer '' @ s, Path = ''/api/v2/balance'', Form = Map.empty\<rparr>"

definition env_lib :: "int64 \<Rightarrow> JWTClaims \<Rightarrow> string env" where
  "env_lib now c = env0\<lparr>ParseWithClaims := jwt_ParseWithClaims (lib0 now c),
                        SignedString := jwt_SignedString (lib0 now c)\<rparr>"

definition token0 :: "JWTClaims \<Rightarrow> bool \<Rightarrow> Token" where
  "token0 c v = \<lparr>Raw = ''h.c.mac-test'', Method = HS256, Claims = c,
                 Signature = ''mac-test'', Valid = v\<rparr>"

definition claims_nowallet :: JWTClaims where
  "claims_nowallet = claims0\<lparr>Wallet := []\<rparr>"

definition claims_later :: JWTClaims where
  "claims_later = claims0\<lparr>NotBefore := 1500\<rparr>"

section \<open>The stages of a request\<close>

lemma errorAPI_world:
  "snd (errorAPI env err code ps w) =
     w\<lparr>response := response w @
        [SetHeader ''X-Content-Type-Options'' ''nosniff'', WriteHeader code,
         Write (envelope err env ps)]\<rparr>"
  by (auto simp: errorAPI_def envelope_def split: err_arg.splits option.splits)

lemma gate_open:
  "\<not> turned_away env r w \<Longrightarrow>
   gate env r w = Inr (w\<lparr>installed := (installed w \<or> Path r \<noteq> ''/api/v2/install'')\<rparr>)"
  by (auto simp: gate_def turned_away_def)

lemma identity_anonymous:
  "token d = None \<or> \<not> Valid (the (token d)) \<or> Wallet (Claims (the (token d))) = [] \<Longrightarrow>
   identity d w = (d, w)"
  by (auto simp: identity_def split: option.splits)

lemma enter_token_error:
  assumes "\<not> turned_away env r w0" "jwtToken env r = (tok, Some err)"
  shows "enter env r ps w0 =
           Inl ((arrived r w0)\<lparr>logs := logs (arrived r w0) @ [(Error, ''starting session'')],
                  response := response (arrived r w0) @
                    [SetHeader ''X-Content-Type-Options'' ''nosniff'', WriteHeader 400,
                     Write (Envelope ''E_SERVER'' (ErrorText err) [])]\<rparr>)"
proof -
  have "\<not> turned_away env r
          (header ''Content-Type'' ''application/json; charset=utf-8''
            (header ''Access-Control-Allow-Origin'' ''*'' (log Info ''received http request'' w0)))"
    using assms(1) by (simp add: turned_away_def header_def log_def)
  from gate_open [OF this] assms(2) show ?thesis
    by (simp add: enter_def errorAPI_world envelope_def arrived_def header_def log_def
        StatusBadRequest_def)
qed

lemma enter_anonymous:
  assumes "\<not> turned_away env r w0" "jwtToken env r = (tok, None)"
      and "tok = None \<or> \<not> Valid (the tok) \<or> Wallet (Claims (the tok)) = []"
  shows "enter env r ps w0 =
           Inr (\<lparr>status = 0, result = None, params = path_params ps Map.empty,
                 state = 0, wallet = 0, token = tok\<rparr>, arrived r w0)"
proof -
  have "\<not> turned_away env r
          (header ''Content-Type'' ''application/json; charset=utf-8''
            (header ''Access-Control-Allow-Origin'' ''*'' (log Info ''received http request'' w0)))"
    using assms(1) by (simp add: turned_away_def header_def log_def)
  from gate_open [OF this] assms(2,3) show ?thesis
    by (simp add: enter_def identity_anonymous arrived_def header_def log_def)
qed

lemma identity_world:
  "identity d w = (d1, w1) \<Longrightarrow>
   response w1 = response w \<and> installed w1 = installed w \<and> queries w1 = queries w"
  by (auto simp: identity_def Let_def log_def split: option.splits if_splits prod.splits)

lemma enter_pass_response:
  assumes "enter env r ps w0 = Inr (d, w)"
  shows "response w = response w0 @
           [SetHeader ''Access-Control-Allow-Origin'' ''*'',
            SetHeader ''Content-Type'' ''application/json; charset=utf-8'']"
  using assms
  by (auto simp: enter_def Let_def gate_def header_def log_def
           split: sum.splits prod.splits option.splits if_splits dest!: identity_world)

lemma coerce_entry_abort:
  "coerce_entry env r entry d w = Inl w1 \<Longrightarrow>
   \<exists>code msg qs l. w1 = w\<lparr>logs := logs w @ [(Error, l)],
                           response := response w @
                             [SetHeader ''X-Content-Type-Options'' ''nosniff'',
                              WriteHeader 400, Write (Envelope code msg qs)]\<rparr>"
  by (auto simp: coerce_entry_def Let_def errorAPI_def log_def StatusBadRequest_def
           split: if_splits sum.splits prod.splits option.splits)

lemma coerce_entry_pass:
  "coerce_entry env r entry d w = Inr (d1, w1) \<Longrightarrow>
   state d1 = state d \<and> wallet d1 = wallet d \<and> token d1 = token d \<and> result d1 = result d \<and>
   status d1 = status d \<and>
   response w1 = response w \<and> installed w1 = installed w \<and> queries w1 = queries w \<and>
   (\<forall>k. k \<noteq> fst entry \<longrightarrow> params d1 k = params d k)"
  by (auto simp: coerce_entry_def Let_def log_def
           split: if_splits sum.splits prod.splits)

lemma coerce_abort:
  "coerce env r schema d w = Inl w1 \<Longrightarrow>
   \<exists>code msg qs. response w1 = response w @
                    [SetHeader ''X-Content-Type-Options'' ''nosniff'',
                     WriteHeader 400, Write (Envelope code msg qs)]"
proof (induction schema arbitrary: d w)
  case Nil
  then show ?case by simp
next
  case (Cons entry rest)
  show ?case
  proof (cases "coerce_entry env r entry d w")
    case (Inl w2)
    with Cons.prems have "w1 = w2" by simp
    with coerce_entry_abort [OF Inl] show ?thesis by auto
  next
    case (Inr p)
    obtain d2 w2 where p: "p = (d2, w2)" by (cases p)
    with Inr Cons.prems have "coerce env r rest d2 w2 = Inl w1" by simp
    from Cons.IH [OF this] coerce_entry_pass [OF Inr [unfolded p]] show ?thesis by simp
  qed
qed

lemma coerce_pass:
  "coerce env r schema d w = Inr (d1, w1) \<Longrightarrow>
   state d1 = state d \<and> wallet d1 = wallet d \<and> token d1 = token d \<and> result d1 = result d \<and>
   status d1 = status d \<and>
   response w1 = response w \<and> installed w1 = installed w \<and> queries w1 = queries w \<and>
   (\<forall>k. k \<notin> fst ` set schema \<longrightarrow> params d1 k = params d k)"
proof (induction schema arbitrary: d w)
  case Nil
  then show ?case by simp
next
  case (Cons entry rest)
  from Cons.prems obtain d2 w2 where
    e: "coerce_entry env r entry d w = Inr (d2, w2)" and c: "coerce env r rest d2 w2 = Inr (d1, w1)"
    by (auto split: sum.splits)
  from Cons.IH [OF c] coerce_entry_pass [OF e] show ?case by simp
qed

lemma coerce_append:
  "coerce env r (pre @ post) d w =
     (case coerce env r pre d w of
        Inl w1 \<Rightarrow> Inl w1
      | Inr (d1, w1) \<Rightarrow> coerce env r post d1 w1)"
  by (induction pre arbitrary: d w) (auto split: sum.splits)

lemma coerce_entry_missing:
  "snd entry AND pOptional = 0 \<Longrightarrow> FormValue r (fst entry) = [] \<Longrightarrow>
   coerce_entry env r entry d w =
     Inl (w\<lparr>logs := logs w @ [(Error, ''undefined val'')],
            response := response w @
              [SetHeader ''X-Content-Type-Options'' ''nosniff'', WriteHeader 400,
               Write (envelope (Code ''E_UNDEFINEVAL'') env [ArgString (fst entry)])]\<rparr>)"
  by (simp add: coerce_entry_def errorAPI_world log_def StatusBadRequest_def)

lemma coerce_entry_bad_hex:
  "snd entry AND 0xff = pHex \<Longrightarrow> DecodeString (FormValue r (fst entry)) = Inl e \<Longrightarrow>
   \<exists>w1. coerce_entry env r entry d w = Inl w1"
  by (simp add: coerce_entry_def pHex_def pInt64_def Let_def)

lemma coerce_stops:
  "entry \<in> set schema \<Longrightarrow> (\<And>d w. \<exists>w1. coerce_entry env r entry d w = Inl w1) \<Longrightarrow>
   \<exists>w1. coerce env r schema d w = Inl w1"
proof (induction schema arbitrary: d w)
  case Nil
  then show ?case by simp
next
  case (Cons e rest)
  show ?case
  proof (cases "coerce_entry env r e d w")
    case (Inl w2)
    then show ?thesis by simp
  next
    case (Inr p)
    obtain d2 w2 where p: "p = (d2, w2)" by (cases p)
    have "entry \<noteq> e" using Inr Cons.prems(2) [of d w] by auto
    with Cons.prems(1) have "entry \<in> set rest" by simp
    from Cons.IH [OF this Cons.prems(2)] Inr p show ?thesis by simp
  qed
qed

lemma DefaultHandler_enter_abort:
  "enter env r ps w0 = Inl w1 \<Longrightarrow> DefaultHandler env schema hs r ps w0 = ([], Returns () w1)"
  by (simp add: DefaultHandler_def DefaultHandler_body_def)

lemma DefaultHandler_param_abort:
  "enter env r ps w0 = Inr (d0, wa) \<Longrightarrow> coerce env r schema d0 wa = Inl w1 \<Longrightarrow>
   DefaultHandler env schema hs r ps w0 = ([], Returns () w1)"
  by (simp add: DefaultHandler_def DefaultHandler_body_def)

lemma DefaultHandler_served:
  "enter env r ps w0 = Inr (d0, wa) \<Longrightarrow> coerce env r schema d0 wa = Inr (d, w) \<Longrightarrow>
   DefaultHandler env schema hs r ps w0 =
     (case chain hs r d w of
        (cs, Panics p w3) \<Rightarrow>
          (cs, Returns () (w3\<lparr>logs := logs w3 @ [(Error, ''panic recovered error'')],
                             response := response w3 @
                               [SetHeader ''X-Content-Type-Options'' ''nosniff'', WriteHeader 500,
                                Write (envelope (Code ''E_RECOVERED'') env [])]\<rparr>))
      | (cs, Returns (Some e, d2) w3) \<Rightarrow> (cs, Returns () w3)
      | (cs, Returns (None, d2) w3) \<Rightarrow> (cs, Returns () (reply env d2 w3)))"
  by (auto simp: DefaultHandler_def DefaultHandler_body_def errorAPI_world log_def
                 StatusInternalServerError_def
           split: prod.splits outcome.splits option.splits)

lemma DefaultHandler_returns:
  "\<exists>cs w1. DefaultHandler env schema hs r ps w0 = (cs, Returns () w1)"
  by (auto simp: DefaultHandler_def split: prod.splits outcome.splits)

lemma chain_append:
  "chain hs1 r d w = (cs1, Returns (None, d1) w1) \<Longrightarrow>
   chain (hs1 @ hs2) r d w = (cs1 @ fst (chain hs2 r d1 w1), snd (chain hs2 r d1 w1))"
proof (induction hs1 arbitrary: d w cs1)
  case Nil
  then show ?case by simp
next
  case (Cons h hs1)
  from Cons.prems obtain da wa cs where
    h: "h r d w = Returns (None, da) wa" and c: "chain hs1 r da wa = (cs, Returns (None, d1) w1)"
    and cs1: "cs1 = (d, w) # cs"
    by (auto split: outcome.splits option.splits prod.splits)
  from Cons.IH [OF c] h cs1 show ?case by simp
qed

lemma chain_calls:
  "chain hs r d w = (cs, Returns (None, d1) w1) \<Longrightarrow>
   length cs = length hs \<and> (cs @ [(d1, w1)]) ! 0 = (d, w) \<and>
   (\<forall>i < length hs.
      (hs ! i) r (fst ((cs @ [(d1, w1)]) ! i)) (snd ((cs @ [(d1, w1)]) ! i)) =
        Returns (None, fst ((cs @ [(d1, w1)]) ! Suc i)) (snd ((cs @ [(d1, w1)]) ! Suc i)))"
proof (induction hs arbitrary: d w cs)
  case Nil
  then show ?case by simp
next
  case (Cons h hs)
  from Cons.prems obtain da wa cs' where
    h: "h r d w = Returns (None, da) wa" and c: "chain hs r da wa = (cs', Returns (None, d1) w1)"
    and cs: "cs = (d, w) # cs'"
    by (auto split: outcome.splits option.splits prod.splits)
  from Cons.IH [OF c] have
    len: "length cs' = length hs" and first: "(cs' @ [(d1, w1)]) ! 0 = (da, wa)" and
    link: "\<And>i. i < length hs \<Longrightarrow>
      (hs ! i) r (fst ((cs' @ [(d1, w1)]) ! i)) (snd ((cs' @ [(d1, w1)]) ! i)) =
        Returns (None, fst ((cs' @ [(d1, w1)]) ! Suc i)) (snd ((cs' @ [(d1, w1)]) ! Suc i))"
    by auto
  have "(\<forall>i < length (h # hs).
      ((h # hs) ! i) r (fst ((cs @ [(d1, w1)]) ! i)) (snd ((cs @ [(d1, w1)]) ! i)) =
        Returns (None, fst ((cs @ [(d1, w1)]) ! Suc i)) (snd ((cs @ [(d1, w1)]) ! Suc i)))"
  proof (intro allI impI)
    fix i assume i: "i < length (h # hs)"
    show "((h # hs) ! i) r (fst ((cs @ [(d1, w1)]) ! i)) (snd ((cs @ [(d1, w1)]) ! i)) =
        Returns (None, fst ((cs @ [(d1, w1)]) ! Suc i)) (snd ((cs @ [(d1, w1)]) ! Suc i))"
    proof (cases i)
      case 0
      with h first cs show ?thesis by simp
    next
      case (Suc j)
      with i have "j < length hs" by simp
      from link [OF this] Suc cs show ?thesis by simp
    qed
  qed
  with len cs show ?case by simp
qed

lemma enter_req0:
  "enter env0 req0 [] world0 = Inr (data0, arrived req0 world0)"
proof -
  have a: "\<not> turned_away env0 req0 world0"
    by (simp add: turned_away_def world0_def)
  have b: "jwtToken env0 req0 = (None, None)"
    by (simp add: jwtToken_def req0_def)
  from enter_anonymous [OF a b, of "[]"] show ?thesis
    by (simp add: data0_def)
qed

lemma DecodeString_fails_iff:
  "(\<exists>e. DecodeString s = Inl e) \<longleftrightarrow> odd (length s) \<or> (\<exists>c \<in> set s. fromHexChar c = None)"
  by (induction s rule: DecodeString.induct) (auto split: option.splits sum.splits)



lemma enter_req_badhex:
  "enter env0 req_badhex [] world0 = Inr (data0, arrived req_badhex world0)"
proof -
  have a: "\<not> turned_away env0 req_badhex world0"
    by (simp add: turned_away_def world0_def)
  have b: "jwtToken env0 req_badhex = (None, None)"
    by (simp add: jwtToken_def req_badhex_def)
  from enter_anonymous [OF a b, of "[]"] show ?thesis
    by (simp add: data0_def)
qed


lemma jwtToken_bearer:
  "Authorization r = jwtPrefix @ raw \<Longrightarrow> jwtToken env r = ParseWithClaims env raw keyFunc"
  by (simp add: jwtToken_def HasPrefix_def jwtPrefix_def)

lemma jwt_nil_error_valid:
  "jwt_ParseWithClaims lib raw kf = (Some t, None) \<Longrightarrow> Valid t"
  by (auto simp: jwt_ParseWithClaims_def split: sum.splits prod.splits option.splits)

lemma jwtToken_env_lib:
  "jwtToken (env_lib now c) (req_bearer ''h.c.mac-test'') =
     (case claims_Valid now c of
        Some e \<Rightarrow> (Some (token0 c False), Some e)
      | None \<Rightarrow> (Some (token0 c True), None))"
  by (simp add: jwtToken_def req_bearer_def HasPrefix_def jwtPrefix_def env_lib_def
      jwt_ParseWithClaims_def lib0_def keyFunc_def HS256_def jwtSecret_def token0_def
      split: option.splits)

lemma open_env_lib:
  "\<not> turned_away (env_lib now c) r world0"
  by (simp add: turned_away_def world0_def)

lemma status_of_refusal:
  "status_of (es @ [SetHeader k v, WriteHeader c, Write b]) =
     (if unwritten es then c else status_of es)"
proof (induction es)
  case Nil
  then show ?case by simp
next
  case (Cons e es)
  then show ?case by (cases e) simp_all
qed

lemma bodies_append:
  "bodies (es @ fs) = bodies es @ bodies fs"
proof (induction es)
  case Nil
  then show ?case by simp
next
  case (Cons e es)
  then show ?case by (cases e) simp_all
qed

section \<open>The ecosystem resolver\<close>

text \<open>
  C3. The claim: when fetching the partition counter fails, the resolver answers with
  HTTP 500. The code answers with \<open>http.StatusBadRequest\<close>: here the declared partition
  is 7, storage fails, and the response is an \<open>E_SERVER\<close> envelope under status 400.
\<close>

theorem checkEcosystem_storage_failure_is_400:
  "checkEcosystem (env0\<lparr>GetNextID := (\<lambda>t. Inl (External ''connection refused''))\<rparr>)
     (data0\<lparr>params := [''ecosystem'' \<mapsto> PInt64 7], state := 2\<rparr>) world0
   = Returns (0, Some (Errorf (ErrorText (External ''connection refused''))))
       \<lparr>response = [SetHeader ''X-Content-Type-Options'' ''nosniff'',
                    WriteHeader 400,
                    Write (Envelope ''E_SERVER'' (ErrorText (External ''connection refused'')) [])],
        logs = [(Error, ''getting next id system states'')],
        installed = True,
        queries = [''system_states'']\<rparr>"
  by (simp add: checkEcosystem_def errorAPI_def env0_def data0_def world0_def log_def
      StatusBadRequest_def)

text \<open>
  C4. With a declared partition that is not positive the resolver returns the session
  partition \<open>data.state\<close> and leaves the world as it was: no storage query, no log line,
  nothing written. With a declared partition \<open>e > 0\<close> and a counter \<open>count \<le> e\<close> it
  returns an error after writing status 400 and an \<open>E_ECOSYSTEM\<close> envelope whose
  parameter list holds \<open>e\<close> in decimal (the code being registered).
\<close>

theorem checkEcosystem_declared:
  assumes "params data ''ecosystem'' = Some (PInt64 e)"
  shows "(e \<le> 0 \<longrightarrow> checkEcosystem env data w = Returns (state data, None) w) \<and>
         (0 < e \<and> GetNextID env ''system_states'' = Inr count \<and> count \<le> e \<and>
          errors env ''E_ECOSYSTEM'' = Some tmpl \<longrightarrow>
            checkEcosystem env data w =
              Returns (0, Some (Errorf (Sprintf tmpl [ArgInt64 e])))
                (w\<lparr>queries := queries w @ [''system_states''],
                   logs := logs w @ [(Error, ''state_id is larger then max count'')],
                   response := response w @
                     [SetHeader ''X-Content-Type-Options'' ''nosniff'',
                      WriteHeader 400,
                      Write (Envelope ''E_ECOSYSTEM'' (Sprintf tmpl [ArgInt64 e])
                               [CHR 0x22 # FormatInt e @ [CHR 0x22]])]\<rparr>))"
  using assms
  by (simp add: checkEcosystem_def errorAPI_def log_def StatusBadRequest_def quoted_def)

theorem checkEcosystem_declared_witness:
  "checkEcosystem env0 (data0\<lparr>params := [''ecosystem'' \<mapsto> PInt64 0], state := 2\<rparr>) world0
     = Returns (2, None) world0 \<and>
   checkEcosystem env0 (data0\<lparr>params := [''ecosystem'' \<mapsto> PInt64 7], state := 2\<rparr>) world0
     = Returns (0, Some (Errorf (Sprintf ''Ecosystem %d doesn't exist'' [ArgInt64 7])))
         (world0\<lparr>queries := [''system_states''],
                 logs := [(Error, ''state_id is larger then max count'')],
                 response :=
                   [SetHeader ''X-Content-Type-Options'' ''nosniff'',
                    WriteHeader 400,
                    Write (Envelope ''E_ECOSYSTEM'' (Sprintf ''Ecosystem %d doesn't exist'' [ArgInt64 7])
                             [[CHR 0x22, CHR ''7'', CHR 0x22]])]\<rparr>)"
proof -
  have f: "FormatInt 7 = ''7''"
    by (simp add: FormatInt_def)
  have a: "params (data0\<lparr>params := [''ecosystem'' \<mapsto> PInt64 0], state := 2\<rparr>) ''ecosystem''
             = Some (PInt64 0)"
    by simp
  have b: "params (data0\<lparr>params := [''ecosystem'' \<mapsto> PInt64 7], state := 2\<rparr>) ''ecosystem''
             = Some (PInt64 7)"
    by simp
  have c: "GetNextID env0 ''system_states'' = Inr 3"
       "errors env0 ''E_ECOSYSTEM'' = Some ''Ecosystem %d doesn't exist''"
    by (simp_all add: env0_def)
  show ?thesis
    using checkEcosystem_declared [OF a, of env0 world0 3 "''x''"]
          checkEcosystem_declared [OF b, of env0 world0 3 "''Ecosystem %d doesn't exist''"] c f
    by (simp add: world0_def data0_def)
qed

section \<open>The handler chain and the recovery\<close>

text \<open>
  C5. A request has passed the gate, the token check and the schema. The handlers \<open>hs1\<close>
  all return nil, the next handler \<open>h\<close> returns an error. Then the dispatcher has
  called the handlers of \<open>hs1\<close> and \<open>h\<close>, in that order, each on the context and world
  its predecessor left, and no handler of \<open>hs2\<close>; the world at the end is the world \<open>h\<close>
  left: the result is neither marshalled nor written. With \<open>hs1\<close> alone as the chain, all
  of its handlers are called and the result is marshalled and written.
\<close>

theorem chain_stops_at_first_failure:
  assumes "enter env r ps w0 = Inr (d0, wa)"
      and "coerce env r schema d0 wa = Inr (d, w)"
      and "chain hs1 r d w = (cs1, Returns (None, d1) w1)"
      and "h r d1 w1 = Returns (Some e, d2) w2"
  shows "DefaultHandler env schema (hs1 @ h # hs2) r ps w0 = (cs1 @ [(d1, w1)], Returns () w2) \<and>
         DefaultHandler env schema hs1 r ps w0 = (cs1, Returns () (reply env d1 w1)) \<and>
         length cs1 = length hs1 \<and>
         (cs1 @ [(d1, w1)]) ! 0 = (d, w) \<and>
         (\<forall>i < length hs1.
            (hs1 ! i) r (fst ((cs1 @ [(d1, w1)]) ! i)) (snd ((cs1 @ [(d1, w1)]) ! i)) =
              Returns (None, fst ((cs1 @ [(d1, w1)]) ! Suc i)) (snd ((cs1 @ [(d1, w1)]) ! Suc i)))"
proof -
  have "chain (h # hs2) r d1 w1 = ([(d1, w1)], Returns (Some e, d2) w2)"
    using assms(4) by simp
  with chain_append [OF assms(3), of "h # hs2"]
  have "chain (hs1 @ h # hs2) r d w = (cs1 @ [(d1, w1)], Returns (Some e, d2) w2)"
    by simp
  with DefaultHandler_served [OF assms(1,2), of "hs1 @ h # hs2"]
  have "DefaultHandler env schema (hs1 @ h # hs2) r ps w0 = (cs1 @ [(d1, w1)], Returns () w2)"
    by simp
  moreover have "DefaultHandler env schema hs1 r ps w0 = (cs1, Returns () (reply env d1 w1))"
    using DefaultHandler_served [OF assms(1,2), of hs1] assms(3) by simp
  ultimately show ?thesis using chain_calls [OF assms(3)] by simp
qed

theorem chain_stops_at_first_failure_witness:
  "DefaultHandler env0 [] [respond ''a'', authWallet env0, respond ''b''] req0 [] world0 =
     ([(data0, arrived req0 world0), (data0\<lparr>result := Some ''a''\<rparr>, arrived req0 world0)],
      Returns ()
        ((arrived req0 world0)\<lparr>response := response (arrived req0 world0) @
           [SetHeader ''X-Content-Type-Options'' ''nosniff'', WriteHeader 401,
            Write (Envelope ''Unauthorized'' (Text ''Unauthorized'') [])]\<rparr>))"
proof -
  let ?w = "arrived req0 world0"
  let ?d1 = "data0\<lparr>result := Some ''a''\<rparr>"
  let ?w2 = "?w\<lparr>response := response ?w @
           [SetHeader ''X-Content-Type-Options'' ''nosniff'', WriteHeader 401,
            Write (Envelope ''Unauthorized'' (Text ''Unauthorized'') [])]\<rparr>"
  have c: "coerce env0 req0 [] data0 ?w = Inr (data0, ?w)" by simp
  have h1: "chain [respond ''a''] req0 data0 ?w = ([(data0, ?w)], Returns (None, ?d1) ?w)"
    by (simp add: respond_def)
  have h2: "authWallet env0 req0 ?d1 ?w =
              Returns (Some (Errorf (Text ''Unauthorized'')), ?d1) ?w2"
    by (simp add: authWallet_def errorAPI_def env0_def data0_def StatusUnauthorized_def)
  from chain_stops_at_first_failure
         [where h = "authWallet env0" and ?hs2.0 = "[respond ''b'']", OF enter_req0 c h1 h2]
  show ?thesis by simp
qed

text \<open>
  C6 (as amended). A handler of the chain panics. The deferred function recovers the
  panic: the dispatcher returns, after one log line and one call of \<open>errorAPI\<close> with
  \<open>E_RECOVERED\<close> and status 500, which are added to what had been written; no later
  handler runs. Whatever the handlers do, the dispatcher returns. The client receives
  status 500 when neither a status nor a body had been written before the panic, and
  the status written first otherwise; the body is what had been written, followed by
  the one envelope.
\<close>

theorem panic_is_recovered:
  assumes "enter env r ps w0 = Inr (d0, wa)"
      and "coerce env r schema d0 wa = Inr (d, w)"
      and "chain hs1 r d w = (cs1, Returns (None, d1) w1)"
      and "h r d1 w1 = Panics p w2"
      and "wr = w2\<lparr>logs := logs w2 @ [(Error, ''panic recovered error'')],
                   response := response w2 @
                     [SetHeader ''X-Content-Type-Options'' ''nosniff'', WriteHeader 500,
                      Write (Envelope ''E_RECOVERED''
                               (Text (case errors env ''E_RECOVERED'' of
                                        Some val \<Rightarrow> val | None \<Rightarrow> ''E_RECOVERED'')) [])]\<rparr>"
  shows "DefaultHandler env schema (hs1 @ h # hs2) r ps w0 = (cs1 @ [(d1, w1)], Returns () wr) \<and>
         (\<forall>hs. \<exists>cs w3. DefaultHandler env schema hs r ps w0 = (cs, Returns () w3)) \<and>
         status_of (response wr) =
           (if unwritten (response w2) then 500 else status_of (response w2)) \<and>
         bodies (response wr) =
           bodies (response w2) @
             [Envelope ''E_RECOVERED''
                (Text (case errors env ''E_RECOVERED'' of
                         Some val \<Rightarrow> val | None \<Rightarrow> ''E_RECOVERED'')) []]"
proof -
  have "chain (h # hs2) r d1 w1 = ([(d1, w1)], Panics p w2)"
    using assms(4) by simp
  with chain_append [OF assms(3), of "h # hs2"]
  have "chain (hs1 @ h # hs2) r d w = (cs1 @ [(d1, w1)], Panics p w2)"
    by simp
  with DefaultHandler_served [OF assms(1,2), of "hs1 @ h # hs2"] assms(5)
  have run: "DefaultHandler env schema (hs1 @ h # hs2) r ps w0 = (cs1 @ [(d1, w1)], Returns () wr)"
    by (simp add: envelope_def split: option.splits)
  have st: "status_of (response wr) =
              (if unwritten (response w2) then 500 else status_of (response w2))"
    using assms(5) by (simp add: status_of_refusal)
  have bd: "bodies (response wr) =
              bodies (response w2) @
                [Envelope ''E_RECOVERED''
                   (Text (case errors env ''E_RECOVERED'' of
                            Some val \<Rightarrow> val | None \<Rightarrow> ''E_RECOVERED'')) []]"
    using assms(5) by (simp add: bodies_append)
  from run st bd DefaultHandler_returns [of env schema _ r ps w0] show ?thesis by simp
qed

theorem panic_is_recovered_witness:
  "DefaultHandler env0 [] [respond ''a'', resolve env0, respond ''b''] req0 [] world0 =
     ([(data0, arrived req0 world0), (data0\<lparr>result := Some ''a''\<rparr>, arrived req0 world0)],
      Returns ()
        \<lparr>response =
           [SetHeader ''Access-Control-Allow-Origin'' ''*'',
            SetHeader ''Content-Type'' ''application/json; charset=utf-8'',
            SetHeader ''X-Content-Type-Options'' ''nosniff'', WriteHeader 500,
            Write (Envelope ''E_RECOVERED'' (Text ''E_RECOVERED'') [])],
         logs = [(Info, ''received http request''), (Error, ''panic recovered error'')],
         installed = True, queries = []\<rparr>) \<and>
   status_of
     [SetHeader ''Access-Control-Allow-Origin'' ''*'',
      SetHeader ''Content-Type'' ''application/json; charset=utf-8'',
      SetHeader ''X-Content-Type-Options'' ''nosniff'', WriteHeader 500,
      Write (Envelope ''E_RECOVERED'' (Text ''E_RECOVERED'') [])] = 500 \<and>
   bodies
     [SetHeader ''Access-Control-Allow-Origin'' ''*'',
      SetHeader ''Content-Type'' ''application/json; charset=utf-8'',
      SetHeader ''X-Content-Type-Options'' ''nosniff'', WriteHeader 500,
      Write (Envelope ''E_RECOVERED'' (Text ''E_RECOVERED'') [])] =
     [Envelope ''E_RECOVERED'' (Text ''E_RECOVERED'') []]"
proof -
  let ?w = "arrived req0 world0"
  let ?d1 = "data0\<lparr>result := Some ''a''\<rparr>"
  have c: "coerce env0 req0 [] data0 ?w = Inr (data0, ?w)" by simp
  have h1: "chain [respond ''a''] req0 data0 ?w = ([(data0, ?w)], Returns (None, ?d1) ?w)"
    by (simp add: respond_def)
  have h2: "resolve env0 req0 ?d1 ?w = Panics (TypeAssertion ''ecosystem'') ?w"
    by (simp add: resolve_def checkEcosystem_def data0_def)
  have e: "errors env0 ''E_RECOVERED'' = None"
    by (simp add: env0_def)
  from panic_is_recovered
         [where h = "resolve env0" and ?hs2.0 = "[respond ''b'']", OF enter_req0 c h1 h2 refl] e
  show ?thesis by (simp add: arrived_def world0_def)
qed

text \<open>
  C6 as stated fails: the handler writes a part of its answer and panics. The panic is
  recovered, but the client has status 200, fixed by the first body write, and the body
  is the partial answer followed by the envelope.
\<close>

theorem written_before_panic_counterexample:
  "DefaultHandler env0 [] [scribble] req0 [] world0 =
     ([(data0, arrived req0 world0)],
      Returns ()
        \<lparr>response =
           [SetHeader ''Access-Control-Allow-Origin'' ''*'',
            SetHeader ''Content-Type'' ''application/json; charset=utf-8'',
            Write (Payload ''partial''),
            SetHeader ''X-Content-Type-Options'' ''nosniff'', WriteHeader 500,
            Write (Envelope ''E_RECOVERED'' (Text ''E_RECOVERED'') [])],
         logs = [(Info, ''received http request''), (Error, ''panic recovered error'')],
         installed = True, queries = []\<rparr>) \<and>
   status_of
     [SetHeader ''Access-Control-Allow-Origin'' ''*'',
      SetHeader ''Content-Type'' ''application/json; charset=utf-8'',
      Write (Payload ''partial''),
      SetHeader ''X-Content-Type-Options'' ''nosniff'', WriteHeader 500,
      Write (Envelope ''E_RECOVERED'' (Text ''E_RECOVERED'') [])] = 200 \<and>
   bodies
     [SetHeader ''Access-Control-Allow-Origin'' ''*'',
      SetHeader ''Content-Type'' ''application/json; charset=utf-8'',
      Write (Payload ''partial''),
      SetHeader ''X-Content-Type-Options'' ''nosniff'', WriteHeader 500,
      Write (Envelope ''E_RECOVERED'' (Text ''E_RECOVERED'') [])] =
     [Payload ''partial'', Envelope ''E_RECOVERED'' (Text ''E_RECOVERED'') []]"
proof -
  let ?w = "arrived req0 world0"
  have c: "coerce env0 req0 [] data0 ?w = Inr (data0, ?w)" by simp
  have h: "chain [scribble] req0 data0 ?w =
             ([(data0, ?w)],
              Panics (Raised ''boom'') (?w\<lparr>response := response ?w @ [Write (Payload ''partial'')]\<rparr>))"
    by (simp add: scribble_def)
  from DefaultHandler_served [OF enter_req0 c, of "[scribble]"] h
  show ?thesis
    by (simp add: envelope_def env0_def arrived_def world0_def)
qed

section \<open>The parameters of a request\<close>

text \<open>
  C8 (as amended). A request has passed the gate and the token check, and the schema has a
  required entry \<open>key\<close> whose form value is empty. Then no handler runs and the response
  is status 400 with one error envelope. The envelope is that of the first entry of the
  loop that fails: when the entries visited before \<open>key\<close> all pass, it has the code
  \<open>E_UNDEFINEVAL\<close> and carries \<open>key\<close>, quoted, as its parameter (the code being
  registered).
\<close>

theorem missing_required_aborts:
  assumes "enter env r ps w0 = Inr (d, w)"
      and "(key, par) \<in> set schema" and "par AND pOptional = 0" and "FormValue r key = []"
  shows "(\<exists>w1 code msg qs.
            DefaultHandler env schema hs r ps w0 = ([], Returns () w1) \<and>
            response w1 = response w0 @
              [SetHeader ''Access-Control-Allow-Origin'' ''*'',
               SetHeader ''Content-Type'' ''application/json; charset=utf-8'',
               SetHeader ''X-Content-Type-Options'' ''nosniff'', WriteHeader 400,
               Write (Envelope code msg qs)]) \<and>
         (\<forall>pre post d1 w1 tmpl.
            schema = pre @ (key, par) # post \<and> coerce env r pre d w = Inr (d1, w1) \<and>
            errors env ''E_UNDEFINEVAL'' = Some tmpl \<longrightarrow>
            DefaultHandler env schema hs r ps w0 =
              ([], Returns ()
                     (w1\<lparr>logs := logs w1 @ [(Error, ''undefined val'')],
                        response := response w0 @
                          [SetHeader ''Access-Control-Allow-Origin'' ''*'',
                           SetHeader ''Content-Type'' ''application/json; charset=utf-8'',
                           SetHeader ''X-Content-Type-Options'' ''nosniff'', WriteHeader 400,
                           Write (Envelope ''E_UNDEFINEVAL'' (Sprintf tmpl [ArgString key])
                                    [CHR 0x22 # key @ [CHR 0x22]])]\<rparr>)))"
proof (intro conjI allI impI)
  have "\<And>d w. \<exists>w1. coerce_entry env r (key, par) d w = Inl w1"
    using coerce_entry_missing [of "(key, par)" r env] assms(3,4) by simp
  from coerce_stops [OF assms(2) this] obtain w1 where c: "coerce env r schema d w = Inl w1"
    by blast
  from coerce_abort [OF c] enter_pass_response [OF assms(1)]
       DefaultHandler_param_abort [OF assms(1) c]
  show "\<exists>w1 code msg qs.
            DefaultHandler env schema hs r ps w0 = ([], Returns () w1) \<and>
            response w1 = response w0 @
              [SetHeader ''Access-Control-Allow-Origin'' ''*'',
               SetHeader ''Content-Type'' ''application/json; charset=utf-8'',
               SetHeader ''X-Content-Type-Options'' ''nosniff'', WriteHeader 400,
               Write (Envelope code msg qs)]"
    by auto
next
  fix pre post d1 w1 tmpl
  assume a: "schema = pre @ (key, par) # post \<and> coerce env r pre d w = Inr (d1, w1) \<and>
            errors env ''E_UNDEFINEVAL'' = Some tmpl"
  have r1: "response w1 = response w0 @
              [SetHeader ''Access-Control-Allow-Origin'' ''*'',
               SetHeader ''Content-Type'' ''application/json; charset=utf-8'']"
    using a coerce_pass [of env r pre d w d1 w1] enter_pass_response [OF assms(1)] by simp
  have "coerce env r schema d w =
          Inl (w1\<lparr>logs := logs w1 @ [(Error, ''undefined val'')],
                  response := response w1 @
                    [SetHeader ''X-Content-Type-Options'' ''nosniff'', WriteHeader 400,
                     Write (envelope (Code ''E_UNDEFINEVAL'') env [ArgString key])]\<rparr>)"
    using a coerce_entry_missing [of "(key, par)" r env d1 w1] assms(3,4)
    by (simp add: coerce_append)
  from DefaultHandler_param_abort [OF assms(1) this] a r1
  show "DefaultHandler env schema hs r ps w0 =
              ([], Returns ()
                     (w1\<lparr>logs := logs w1 @ [(Error, ''undefined val'')],
                        response := response w0 @
                          [SetHeader ''Access-Control-Allow-Origin'' ''*'',
                           SetHeader ''Content-Type'' ''application/json; charset=utf-8'',
                           SetHeader ''X-Content-Type-Options'' ''nosniff'', WriteHeader 400,
                           Write (Envelope ''E_UNDEFINEVAL'' (Sprintf tmpl [ArgString key])
                                    [CHR 0x22 # key @ [CHR 0x22]])]\<rparr>))"
    by (simp add: envelope_def quoted_def)
qed

theorem missing_required_aborts_witness:
  "DefaultHandler env0 [(''id'', pInt64)] [respond ''a''] req0 [] world0 =
     ([], Returns ()
            \<lparr>response =
               [SetHeader ''Access-Control-Allow-Origin'' ''*'',
                SetHeader ''Content-Type'' ''application/json; charset=utf-8'',
                SetHeader ''X-Content-Type-Options'' ''nosniff'', WriteHeader 400,
                Write (Envelope ''E_UNDEFINEVAL''
                         (Sprintf ''Value %s is undefined'' [ArgString ''id''])
                         [[CHR 0x22, CHR ''i'', CHR ''d'', CHR 0x22]])],
             logs = [(Info, ''received http request''), (Error, ''undefined val'')],
             installed = True, queries = []\<rparr>)"
proof -
  have m: "(''id'', pInt64) \<in> set [(''id'', pInt64)]" by simp
  have o: "pInt64 AND pOptional = 0" by (simp add: pInt64_def)
  have f: "FormValue req0 ''id'' = []" by (simp add: FormValue_def req0_def)
  have c: "coerce env0 req0 [] data0 (arrived req0 world0) = Inr (data0, arrived req0 world0)"
    by simp
  have e: "errors env0 ''E_UNDEFINEVAL'' = Some ''Value %s is undefined''"
    by (simp add: env0_def)
  from missing_required_aborts [OF enter_req0 m o f, of "[respond ''a'']"] c e
  have "DefaultHandler env0 [(''id'', pInt64)] [respond ''a''] req0 [] world0 =
              ([], Returns ()
                     ((arrived req0 world0)\<lparr>logs := logs (arrived req0 world0) @ [(Error, ''undefined val'')],
                        response := response world0 @
                          [SetHeader ''Access-Control-Allow-Origin'' ''*'',
                           SetHeader ''Content-Type'' ''application/json; charset=utf-8'',
                           SetHeader ''X-Content-Type-Options'' ''nosniff'', WriteHeader 400,
                           Write (Envelope ''E_UNDEFINEVAL'' (Sprintf ''Value %s is undefined'' [ArgString ''id''])
                                    [CHR 0x22 # ''id'' @ [CHR 0x22]])]\<rparr>))"
    by blast
  then show ?thesis by (simp add: arrived_def world0_def)
qed

text \<open>
  C8 as stated fails: the schema requires \<open>id\<close>, the request has no \<open>id\<close>, and the loop
  visits the hex entry \<open>sig\<close> first. The envelope is the \<open>E_SERVER\<close> envelope of the hex
  error; it does not name \<open>id\<close>.
\<close>

theorem missing_required_counterexample:
  "(''id'', pInt64) \<in> set [(''sig'', pHex), (''id'', pInt64)] \<and>
   pInt64 AND pOptional = 0 \<and> FormValue req_badhex ''id'' = [] \<and>
   DefaultHandler env0 [(''sig'', pHex), (''id'', pInt64)] [respond ''a''] req_badhex [] world0 =
     ([], Returns ()
            \<lparr>response =
               [SetHeader ''Access-Control-Allow-Origin'' ''*'',
                SetHeader ''Content-Type'' ''application/json; charset=utf-8'',
                SetHeader ''X-Content-Type-Options'' ''nosniff'', WriteHeader 400,
                Write (Envelope ''E_SERVER'' (ErrorText (InvalidByteError CHR ''z'')) [])],
             logs = [(Info, ''received http request''), (Error, ''decoding http parameter from hex'')],
             installed = True, queries = []\<rparr>)"
proof -
  have c: "coerce env0 req_badhex [(''sig'', pHex), (''id'', pInt64)] data0 (arrived req_badhex world0) =
           Inl ((arrived req_badhex world0)\<lparr>
                  logs := logs (arrived req_badhex world0) @ [(Error, ''decoding http parameter from hex'')],
                  response := response (arrived req_badhex world0) @
                    [SetHeader ''X-Content-Type-Options'' ''nosniff'', WriteHeader 400,
                     Write (Envelope ''E_SERVER'' (ErrorText (InvalidByteError CHR ''z'')) [])]\<rparr>)"
    by (simp add: coerce_entry_def FormValue_def req_badhex_def pHex_def pOptional_def pInt64_def
        fromHexChar_def errorAPI_def log_def StatusBadRequest_def Let_def)
  from DefaultHandler_param_abort [OF enter_req_badhex c, of "[respond ''a'']"]
  show ?thesis
    by (simp add: arrived_def world0_def pInt64_def FormValue_def req_badhex_def)
qed

text \<open>
  C9 (as amended). A request has passed the gate and the token check, and the schema has a
  hex entry whose form value has odd length or a byte that is no hexadecimal digit, or is
  empty while the entry is required. Then no handler runs and the response is status 400
  with one error envelope. An optional hex entry with an empty value does not fail: it
  is stored as the empty byte string and the loop goes on.
\<close>

theorem bad_hex_aborts:
  assumes "enter env r ps w0 = Inr (d, w)"
      and "(key, par) \<in> set schema" and "par AND 0xff = pHex"
      and "odd (length (FormValue r key)) \<or> (\<exists>c \<in> set (FormValue r key). fromHexChar c = None) \<or>
           (FormValue r key = [] \<and> par AND pOptional = 0)"
  shows "(\<exists>w1 code msg qs.
            DefaultHandler env schema hs r ps w0 = ([], Returns () w1) \<and>
            response w1 = response w0 @
              [SetHeader ''Access-Control-Allow-Origin'' ''*'',
               SetHeader ''Content-Type'' ''application/json; charset=utf-8'',
               SetHeader ''X-Content-Type-Options'' ''nosniff'', WriteHeader 400,
               Write (Envelope code msg qs)]) \<and>
         (\<forall>key1 par1 d1 w1.
            par1 AND 0xff = pHex \<and> par1 AND pOptional \<noteq> 0 \<and> FormValue r key1 = [] \<longrightarrow>
            coerce_entry env r (key1, par1) d1 w1 =
              Inr (d1\<lparr>params := (params d1)(key1 \<mapsto> PBytes [])\<rparr>, w1))"
proof (intro conjI allI impI)
  have "\<And>d w. \<exists>w1. coerce_entry env r (key, par) d w = Inl w1"
  proof -
    fix d :: "'a apiData" and w
    from assms(4) consider
      (bad) "odd (length (FormValue r key)) \<or> (\<exists>c \<in> set (FormValue r key). fromHexChar c = None)"
      | (missing) "FormValue r key = [] \<and> par AND pOptional = 0"
      by blast
    then show "\<exists>w1. coerce_entry env r (key, par) d w = Inl w1"
    proof cases
      case bad
      then obtain e where "DecodeString (FormValue r key) = Inl e"
        using DecodeString_fails_iff [of "FormValue r key"] by blast
      with coerce_entry_bad_hex [of "(key, par)" r e env d w] assms(3) show ?thesis by simp
    next
      case missing
      with coerce_entry_missing [of "(key, par)" r env d w] show ?thesis by simp
    qed
  qed
  from coerce_stops [OF assms(2) this] obtain w1 where c: "coerce env r schema d w = Inl w1"
    by blast
  from coerce_abort [OF c] enter_pass_response [OF assms(1)]
       DefaultHandler_param_abort [OF assms(1) c]
  show "\<exists>w1 code msg qs.
            DefaultHandler env schema hs r ps w0 = ([], Returns () w1) \<and>
            response w1 = response w0 @
              [SetHeader ''Access-Control-Allow-Origin'' ''*'',
               SetHeader ''Content-Type'' ''application/json; charset=utf-8'',
               SetHeader ''X-Content-Type-Options'' ''nosniff'', WriteHeader 400,
               Write (Envelope code msg qs)]"
    by auto
next
  fix key1 :: string and par1 :: int and d1 :: "'a apiData" and w1
  assume "par1 AND 0xff = pHex \<and> par1 AND pOptional \<noteq> 0 \<and> FormValue r key1 = []"
  then show "coerce_entry env r (key1, par1) d1 w1 =
              Inr (d1\<lparr>params := (params d1)(key1 \<mapsto> PBytes [])\<rparr>, w1)"
    by (simp add: coerce_entry_def pHex_def pInt64_def)
qed

theorem bad_hex_aborts_witness:
  "(\<exists>w1 code msg qs.
      DefaultHandler env0 [(''sig'', pHex)] [respond ''a''] req_badhex [] world0 = ([], Returns () w1) \<and>
      response w1 =
        [SetHeader ''Access-Control-Allow-Origin'' ''*'',
         SetHeader ''Content-Type'' ''application/json; charset=utf-8'',
         SetHeader ''X-Content-Type-Options'' ''nosniff'', WriteHeader 400,
         Write (Envelope code msg qs)]) \<and>
   coerce_entry env0 req_badhex (''pubkey'', pHex + pOptional) data0 world0 =
     Inr (data0\<lparr>params := [''pubkey'' \<mapsto> PBytes []]\<rparr>, world0)"
proof -
  have m: "(''sig'', pHex) \<in> set [(''sig'', pHex)]" by simp
  have k: "pHex AND 0xff = pHex" by (simp add: pHex_def)
  have b: "odd (length (FormValue req_badhex ''sig'')) \<or>
           (\<exists>c \<in> set (FormValue req_badhex ''sig''). fromHexChar c = None) \<or>
           (FormValue req_badhex ''sig'' = [] \<and> pHex AND pOptional = 0)"
    by (simp add: FormValue_def req_badhex_def fromHexChar_def)
  have o: "(pHex + pOptional) AND 0xff = pHex \<and> (pHex + pOptional) AND pOptional \<noteq> 0 \<and>
           FormValue req_badhex ''pubkey'' = []"
    by (simp add: pHex_def pOptional_def FormValue_def req_badhex_def)
  note t = bad_hex_aborts [OF enter_req_badhex m k b, of "[respond ''a'']"]
  from t [THEN conjunct2, rule_format, OF o, of data0 world0] t [THEN conjunct1]
  show ?thesis by (simp add: world0_def data0_def)
qed

text \<open>
  C9 as stated fails: \<open>pubkey\<close> is an optional hex entry, the request has no \<open>pubkey\<close>;
  the handler runs with \<open>pubkey\<close> bound to the empty byte string and its result is written.
\<close>

theorem optional_empty_hex_counterexample:
  "(pHex + pOptional) AND 0xff = pHex \<and> FormValue req0 ''pubkey'' = [] \<and>
   DefaultHandler env0 [(''pubkey'', pHex + pOptional)] [respond ''a''] req0 [] world0 =
     ([(data0\<lparr>params := [''pubkey'' \<mapsto> PBytes []]\<rparr>, arrived req0 world0)],
      Returns ()
        \<lparr>response =
           [SetHeader ''Access-Control-Allow-Origin'' ''*'',
            SetHeader ''Content-Type'' ''application/json; charset=utf-8'',
            Write (Payload ''a'')],
         logs = [(Info, ''received http request'')],
         installed = True, queries = []\<rparr>)"
proof -
  have c: "coerce env0 req0 [(''pubkey'', pHex + pOptional)] data0 (arrived req0 world0) =
             Inr (data0\<lparr>params := [''pubkey'' \<mapsto> PBytes []]\<rparr>, arrived req0 world0)"
    by (simp add: coerce_entry_def FormValue_def req0_def pHex_def pOptional_def pInt64_def
        data0_def)
  from DefaultHandler_served [OF enter_req0 c, of "[respond ''a'']"]
  show ?thesis
    by (simp add: respond_def reply_def env0_def arrived_def world0_def pHex_def pOptional_def
        FormValue_def req0_def)
qed




section \<open>Tokens and identity\<close>

text \<open>
  C1 (as amended). A request has passed the gate and carries \<open>Bearer\<close> and a token string
  for which \<open>jwt.ParseWithClaims\<close> returns a token that is not valid. When the library
  returns an error with it, the dispatcher logs it and answers with status 400 and an
  \<open>E_SERVER\<close> envelope; no handler runs. When it returns no error, the request goes
  on with wallet 0 and state 0. The library returns an error with every token it
  leaves invalid.
\<close>

theorem invalid_token_is_refused:
  assumes "\<not> turned_away env r w0"
      and "Authorization r = jwtPrefix @ raw"
      and "ParseWithClaims env raw keyFunc = (Some t, e)" and "\<not> Valid t"
  shows "(\<forall>err. e = Some err \<longrightarrow>
            DefaultHandler env schema hs r ps w0 =
              ([], Returns ()
                     ((arrived r w0)\<lparr>logs := logs (arrived r w0) @ [(Error, ''starting session'')],
                        response := response (arrived r w0) @
                          [SetHeader ''X-Content-Type-Options'' ''nosniff'', WriteHeader 400,
                           Write (Envelope ''E_SERVER'' (ErrorText err) [])]\<rparr>))) \<and>
         (e = None \<longrightarrow>
            enter env r ps w0 =
              Inr (\<lparr>status = 0, result = None, params = path_params ps Map.empty,
                    state = 0, wallet = 0, token = Some t\<rparr>, arrived r w0)) \<and>
         (\<forall>lib. ParseWithClaims env = jwt_ParseWithClaims lib \<longrightarrow> e \<noteq> None)"
proof (intro conjI allI impI)
  fix err assume "e = Some err"
  with assms(3) jwtToken_bearer [OF assms(2), of env]
  have "jwtToken env r = (Some t, Some err)" by simp
  from DefaultHandler_enter_abort [OF enter_token_error [OF assms(1) this]]
  show "DefaultHandler env schema hs r ps w0 =
              ([], Returns ()
                     ((arrived r w0)\<lparr>logs := logs (arrived r w0) @ [(Error, ''starting session'')],
                        response := response (arrived r w0) @
                          [SetHeader ''X-Content-Type-Options'' ''nosniff'', WriteHeader 400,
                           Write (Envelope ''E_SERVER'' (ErrorText err) [])]\<rparr>))" .
next
  assume "e = None"
  with assms(3) jwtToken_bearer [OF assms(2), of env]
  have "jwtToken env r = (Some t, None)" by simp
  from enter_anonymous [OF assms(1) this] assms(4)
  show "enter env r ps w0 =
              Inr (\<lparr>status = 0, result = None, params = path_params ps Map.empty,
                    state = 0, wallet = 0, token = Some t\<rparr>, arrived r w0)"
    by simp
next
  fix lib assume "ParseWithClaims env = jwt_ParseWithClaims lib"
  with assms(3) have "jwt_ParseWithClaims lib raw keyFunc = (Some t, e)" by simp
  with jwt_nil_error_valid [of lib raw keyFunc t] assms(4) show "e \<noteq> None" by auto
qed

theorem invalid_token_is_refused_witness:
  "DefaultHandler (env_lib 1000 claims0) [] [respond ''a''] (req_bearer ''h.c.mac-evil'') [] world0 =
     ([], Returns ()
            \<lparr>response =
               [SetHeader ''Access-Control-Allow-Origin'' ''*'',
                SetHeader ''Content-Type'' ''application/json; charset=utf-8'',
                SetHeader ''X-Content-Type-Options'' ''nosniff'', WriteHeader 400,
                Write (Envelope ''E_SERVER'' (ErrorText (External ''signature is invalid'')) [])],
             logs = [(Info, ''received http request''), (Error, ''starting session'')],
             installed = True, queries = []\<rparr>) \<and>
   enter (env0\<lparr>ParseWithClaims := (\<lambda>s k. (Some (token0 claims0 False), None))\<rparr>)
       (req_bearer ''h.c.mac-test'') [] world0 =
     Inr (data0\<lparr>token := Some (token0 claims0 False)\<rparr>,
          arrived (req_bearer ''h.c.mac-test'') world0)"
proof -
  let ?t = "\<lparr>Raw = ''h.c.mac-evil'', Method = HS256, Claims = claims0,
             Signature = ''mac-evil'', Valid = False\<rparr>"
  let ?env = "env0\<lparr>ParseWithClaims := (\<lambda>s k. (Some (token0 claims0 False), None))\<rparr>"
  have a: "Authorization (req_bearer ''h.c.mac-evil'') = jwtPrefix @ ''h.c.mac-evil''"
    by (simp add: req_bearer_def jwtPrefix_def)
  have p: "ParseWithClaims (env_lib 1000 claims0) ''h.c.mac-evil'' keyFunc =
             (Some ?t, Some (External ''signature is invalid''))"
    by (simp add: env_lib_def jwt_ParseWithClaims_def lib0_def keyFunc_def HS256_def jwtSecret_def)
  have v: "\<not> Valid ?t" by simp
  have b: "Authorization (req_bearer ''h.c.mac-test'') = jwtPrefix @ ''h.c.mac-test''"
    by (simp add: req_bearer_def jwtPrefix_def)
  have q: "ParseWithClaims ?env ''h.c.mac-test'' keyFunc = (Some (token0 claims0 False), None)"
    by simp
  have u: "\<not> Valid (token0 claims0 False)" by (simp add: token0_def)
  have o: "\<not> turned_away ?env (req_bearer ''h.c.mac-test'') world0"
    by (simp add: turned_away_def world0_def)
  from invalid_token_is_refused
         [where schema = "[]" and hs = "[respond ''a'']" and ps = "[]", OF open_env_lib a p v]
       invalid_token_is_refused [where ps = "[]", OF o b q u]
  show ?thesis
    by (simp add: arrived_def world0_def data0_def req_bearer_def)
qed

text \<open>
  C1 as stated fails: the token is well formed and signed with the secret, and it expired
  1000 seconds ago. The library returns it with \<open>Valid = false\<close> and an error, and the
  dispatcher answers with status 400 without calling the handler.
\<close>

theorem expired_token_counterexample:
  "jwtToken (env_lib 3000 claims0) (req_bearer ''h.c.mac-test'') =
     (Some (token0 claims0 False),
      Some (Errorf (Sprintf ''token is expired by %v'' [ArgInt64 1000]))) \<and>
   DefaultHandler (env_lib 3000 claims0) [] [respond ''a''] (req_bearer ''h.c.mac-test'') [] world0 =
     ([], Returns ()
            \<lparr>response =
               [SetHeader ''Access-Control-Allow-Origin'' ''*'',
                SetHeader ''Content-Type'' ''application/json; charset=utf-8'',
                SetHeader ''X-Content-Type-Options'' ''nosniff'', WriteHeader 400,
                Write (Envelope ''E_SERVER''
                         (ErrorText (Errorf (Sprintf ''token is expired by %v'' [ArgInt64 1000]))) [])],
             logs = [(Info, ''received http request''), (Error, ''starting session'')],
             installed = True, queries = []\<rparr>)"
proof -
  have t: "jwtToken (env_lib 3000 claims0) (req_bearer ''h.c.mac-test'') =
     (Some (token0 claims0 False),
      Some (Errorf (Sprintf ''token is expired by %v'' [ArgInt64 1000])))"
    by (simp add: jwtToken_env_lib claims_Valid_def claims0_def)
  from DefaultHandler_enter_abort
         [where schema = "[]" and hs = "[respond ''a'']",
          OF enter_token_error [where ps = "[]", OF open_env_lib t]] t
  show ?thesis by (simp add: arrived_def world0_def req_bearer_def)
qed

text \<open>
  C10. A request has passed the gate and carries a valid token whose \<open>Wallet\<close> claim is
  empty. Then the context starts with wallet 0 and state 0, whatever the \<open>State\<close> claim
  is, and the first handler is called with wallet 0 and state 0.
\<close>

theorem empty_wallet_is_anonymous:
  assumes "\<not> turned_away env r w0"
      and "jwtToken env r = (Some t, None)" and "Valid t" and "Wallet (Claims t) = []"
  shows "enter env r ps w0 =
           Inr (\<lparr>status = 0, result = None, params = path_params ps Map.empty,
                 state = 0, wallet = 0, token = Some t\<rparr>, arrived r w0) \<and>
         (\<forall>d0 wa d w. enter env r ps w0 = Inr (d0, wa) \<and> coerce env r schema d0 wa = Inr (d, w) \<longrightarrow>
            state d = 0 \<and> wallet d = 0 \<and>
            take 1 (fst (DefaultHandler env schema (h # hs) r ps w0)) = [(d, w)])"
proof -
  have e: "enter env r ps w0 =
           Inr (\<lparr>status = 0, result = None, params = path_params ps Map.empty,
                 state = 0, wallet = 0, token = Some t\<rparr>, arrived r w0)"
    using enter_anonymous [OF assms(1,2)] assms(4) by simp
  have "state d = 0 \<and> wallet d = 0 \<and>
        take 1 (fst (DefaultHandler env schema (h # hs) r ps w0)) = [(d, w)]"
    if a: "enter env r ps w0 = Inr (d0, wa) \<and> coerce env r schema d0 wa = Inr (d, w)"
    for d0 :: "'a apiData" and wa and d :: "'a apiData" and w
  proof -
    from a e have z: "state d0 = 0 \<and> wallet d0 = 0" by auto
    from a coerce_pass [of env r schema d0 wa d w] z
    have s: "state d = 0 \<and> wallet d = 0" by simp
    have "take 1 (fst (chain (h # hs) r d w)) = [(d, w)]"
      by (auto split: outcome.splits option.splits prod.splits)
    with a DefaultHandler_served [of env r ps w0 d0 wa schema d w "h # hs"]
    have "take 1 (fst (DefaultHandler env schema (h # hs) r ps w0)) = [(d, w)]"
      by (auto split: outcome.splits option.splits prod.splits)
    with s show ?thesis by simp
  qed
  with e show ?thesis by blast
qed

theorem empty_wallet_is_anonymous_witness:
  "State claims_nowallet = ''2'' \<and>
   DefaultHandler (env_lib 1000 claims_nowallet) [] [authWallet (env_lib 1000 claims_nowallet), respond ''a'']
       (req_bearer ''h.c.mac-test'') [] world0 =
     ([(data0\<lparr>token := Some (token0 claims_nowallet True)\<rparr>,
        arrived (req_bearer ''h.c.mac-test'') world0)],
      Returns ()
        \<lparr>response =
           [SetHeader ''Access-Control-Allow-Origin'' ''*'',
            SetHeader ''Content-Type'' ''application/json; charset=utf-8'',
            SetHeader ''X-Content-Type-Options'' ''nosniff'', WriteHeader 401,
            Write (Envelope ''Unauthorized'' (Text ''Unauthorized'') [])],
         logs = [(Info, ''received http request'')],
         installed = True, queries = []\<rparr>)"
proof -
  let ?env = "env_lib 1000 claims_nowallet"
  let ?r = "req_bearer ''h.c.mac-test''"
  let ?t = "token0 claims_nowallet True"
  let ?d = "data0\<lparr>token := Some ?t\<rparr>"
  have t: "jwtToken ?env ?r = (Some ?t, None)"
    by (simp add: jwtToken_env_lib claims_Valid_def claims_nowallet_def claims0_def)
  have v: "Valid ?t" by (simp add: token0_def)
  have e: "Wallet (Claims ?t) = []" by (simp add: token0_def claims_nowallet_def)
  note th = empty_wallet_is_anonymous
              [where h = "authWallet ?env" and hs = "[respond ''a'']" and schema = "[]" and ps = "[]",
               OF open_env_lib t v e]
  from th have en: "enter ?env ?r [] world0 = Inr (?d, arrived ?r world0)"
    by (simp add: data0_def)
  have c: "coerce ?env ?r [] ?d (arrived ?r world0) = Inr (?d, arrived ?r world0)" by simp
  from th [THEN conjunct2, rule_format, of ?d "arrived ?r world0" ?d "arrived ?r world0"] en c
  have z: "wallet ?d = 0" by simp
  have "authWallet ?env ?r ?d (arrived ?r world0) =
          Returns (Some (Errorf (Text ''Unauthorized'')), ?d)
            ((arrived ?r world0)\<lparr>response := response (arrived ?r world0) @
               [SetHeader ''X-Content-Type-Options'' ''nosniff'', WriteHeader 401,
                Write (Envelope ''Unauthorized'' (Text ''Unauthorized'') [])]\<rparr>)"
    using z by (simp add: authWallet_def errorAPI_def env_lib_def env0_def StatusUnauthorized_def)
  with DefaultHandler_served [OF en c, of "[authWallet ?env, respond ''a'']"]
  show ?thesis
    by (simp add: arrived_def world0_def claims_nowallet_def claims0_def)
qed

text \<open>
  C7 (as amended). The library signs the claims \<open>c\<close> with \<open>HS256\<close> under the secret; its
  parser decodes the token string to the method and claims that were encoded and its
  \<open>Verify\<close> accepts the signature under the same key. If at the time of the request the
  expiry of \<open>c\<close> is unset or not passed, and issued-at and not-before are unset or not in
  the future, then \<open>jwtSave\<close> sets the header \<open>Authorization\<close> to \<open>Bearer\<close> and the token,
  and \<open>jwtToken\<close> on a request carrying that header returns a valid token with the claims
  \<open>c\<close> and no error.
\<close>

theorem token_round_trip:
  assumes "SignedString env = jwt_SignedString lib"
      and "ParseWithClaims env = jwt_ParseWithClaims lib"
      and "Sign lib HS256 (SigningString lib HS256 c) jwtSecret = Inr sig"
      and "s = SigningString lib HS256 c @ ''.'' @ sig"
      and "decode lib s = Inr (t, SigningString lib HS256 c)"
      and "Method t = HS256" and "Claims t = c" and "Signature t = sig"
      and "Verify lib HS256 (SigningString lib HS256 c) sig jwtSecret = None"
      and "ExpiresAt c = 0 \<or> TimeFunc lib \<le> ExpiresAt c"
      and "IssuedAt c = 0 \<or> IssuedAt c \<le> TimeFunc lib"
      and "NotBefore c = 0 \<or> NotBefore c \<le> TimeFunc lib"
  shows "jwtSave env c w = (None, header ''Authorization'' (''Bearer '' @ s) w) \<and>
         (\<forall>r. Authorization r = ''Bearer '' @ s \<longrightarrow>
              jwtToken env r = (Some (t\<lparr>Valid := True\<rparr>), None) \<and>
              Valid (t\<lparr>Valid := True\<rparr>) \<and> Claims (t\<lparr>Valid := True\<rparr>) = c)"
proof -
  have save: "jwtSave env c w = (None, header ''Authorization'' (''Bearer '' @ s) w)"
    using assms(1,3,4) by (simp add: jwtSave_def jwt_SignedString_def jwtPrefix_def)
  have k: "keyFunc t = Inr jwtSecret"
    using assms(6) by (simp add: keyFunc_def HS256_def)
  have v: "claims_Valid (TimeFunc lib) c = None"
    using assms(10,11,12) by (auto simp: claims_Valid_def)
  have "jwt_ParseWithClaims lib s keyFunc = (Some (t\<lparr>Valid := True\<rparr>), None)"
    using assms(5,6,7,8,9) k v by (simp add: jwt_ParseWithClaims_def)
  with assms(2) have p: "ParseWithClaims env s keyFunc = (Some (t\<lparr>Valid := True\<rparr>), None)"
    by simp
  have "jwtToken env r = (Some (t\<lparr>Valid := True\<rparr>), None)"
    if "Authorization r = ''Bearer '' @ s" for r
    using jwtToken_bearer [of r s env] that p by (simp add: jwtPrefix_def)
  with save assms(7) show ?thesis by simp
qed

theorem token_round_trip_witness:
  "jwtSave (env_lib 1000 claims0) claims0 world0 =
     (None, header ''Authorization'' ''Bearer h.c.mac-test'' world0) \<and>
   jwtToken (env_lib 1000 claims0) (req_bearer ''h.c.mac-test'') =
     (Some (token0 claims0 True), None) \<and>
   Claims (token0 claims0 True) = claims0"
proof -
  let ?lib = "lib0 1000 claims0"
  let ?m = "HS256"
  have a1: "SignedString (env_lib 1000 claims0) = jwt_SignedString ?lib"
    by (simp add: env_lib_def)
  have a2: "ParseWithClaims (env_lib 1000 claims0) = jwt_ParseWithClaims ?lib"
    by (simp add: env_lib_def)
  have a3: "Sign ?lib ?m (SigningString ?lib ?m claims0) jwtSecret = Inr ''mac-test''"
    by (simp add: lib0_def jwtSecret_def)
  have a4: "''h.c.mac-test'' = SigningString ?lib ?m claims0 @ ''.'' @ ''mac-test''"
    by (simp add: lib0_def)
  have a5: "decode ?lib ''h.c.mac-test'' = Inr (token0 claims0 False, SigningString ?lib ?m claims0)"
    by (simp add: lib0_def token0_def)
  have a6: "Method (token0 claims0 False) = ?m" by (simp add: token0_def HS256_def)
  have a7: "Claims (token0 claims0 False) = claims0" by (simp add: token0_def)
  have a8: "Signature (token0 claims0 False) = ''mac-test''" by (simp add: token0_def)
  have a9: "Verify ?lib ?m (SigningString ?lib ?m claims0) ''mac-test'' jwtSecret = None"
    by (simp add: lib0_def jwtSecret_def)
  have a10: "ExpiresAt claims0 = 0 \<or> TimeFunc ?lib \<le> ExpiresAt claims0"
    by (simp add: lib0_def claims0_def)
  have a11: "IssuedAt claims0 = 0 \<or> IssuedAt claims0 \<le> TimeFunc ?lib"
    by (simp add: lib0_def claims0_def)
  have a12: "NotBefore claims0 = 0 \<or> NotBefore claims0 \<le> TimeFunc ?lib"
    by (simp add: lib0_def claims0_def)
  have r: "Authorization (req_bearer ''h.c.mac-test'') = ''Bearer '' @ ''h.c.mac-test''"
    by (simp add: req_bearer_def)
  note th = token_round_trip [where w = world0, OF a1 a2 a3 a4 a5 a6 a7 a8 a9 a10 a11 a12]
  from th [THEN conjunct1] th [THEN conjunct2, rule_format, OF r]
  show ?thesis by (simp add: token0_def)
qed

text \<open>
  C7 as stated fails: the claims expire at 2000 and are not valid before 1500; at time
  1000 the freshly issued token is returned with \<open>Valid = false\<close> and an error.
\<close>

theorem not_before_counterexample:
  "TimeFunc (lib0 1000 claims_later) \<le> ExpiresAt claims_later \<and>
   jwtSave (env_lib 1000 claims_later) claims_later world0 =
     (None, header ''Authorization'' ''Bearer h.c.mac-test'' world0) \<and>
   jwtToken (env_lib 1000 claims_later) (req_bearer ''h.c.mac-test'') =
     (Some (token0 claims_later False), Some (External ''token is not valid yet''))"
proof -
  have a: "TimeFunc (lib0 1000 claims_later) \<le> ExpiresAt claims_later"
    by (simp add: lib0_def claims_later_def claims0_def)
  have b: "jwtSave (env_lib 1000 claims_later) claims_later world0 =
             (None, header ''Authorization'' ''Bearer h.c.mac-test'' world0)"
    by (simp add: jwtSave_def env_lib_def jwt_SignedString_def lib0_def jwtSecret_def
        jwtPrefix_def)
  have c: "jwtToken (env_lib 1000 claims_later) (req_bearer ''h.c.mac-test'') =
             (Some (token0 claims_later False), Some (External ''token is not valid yet''))"
    by (simp add: jwtToken_env_lib claims_Valid_def claims_later_def claims0_def)
  from a b c show ?thesis by simp
qed

end
